theory Spec2Isabelle
  imports Complex_Main "HOL-Library.Multiset" "HOL-Library.Product_Lexorder"
begin

section \<open>JavaScript values and objects\<close>

text \<open>
  The handlers of \<^verbatim>\<open>server.js\<close> move JavaScript values between the parsed request
  body, the documents of the database and the JSON responses. One datatype holds the
  values that occur: the data values that \<^verbatim>\<open>express.json()\<close> parses, \<^verbatim>\<open>undefined\<close>
  (what reading a missing property gives), the number \<^verbatim>\<open>NaN\<close>, the timestamps that the
  database stores, and the two \<^verbatim>\<open>FieldValue\<close> sentinels that the handlers put into the
  data they write. Finite numbers are rationals: the handlers only test them against zero,
  copy them and add one to them.
\<close>

datatype jsval =
    VUndefined
  | VNull
  | VBool bool
  | VNum rat
  | VNaN
  | VStr string
  | VArr "jsval list"
  | VObj "(string \<times> jsval) list"
  | VTimestamp int
  | VServerTimestamp
  | VIncrement rat

type_synonym jsobject = "(string \<times> jsval) list"

text \<open>
  An object is its list of properties in insertion order. Reading a property that the
  object does not have gives \<^verbatim>\<open>undefined\<close>.
\<close>

definition get_prop :: "jsobject \<Rightarrow> string \<Rightarrow> jsval" where
  "get_prop obj k = (case map_of obj k of None \<Rightarrow> VUndefined | Some v \<Rightarrow> v)"

text \<open>
  Assigning a property replaces the value where the key already is, and appends a new
  key at the end.
\<close>

fun set_prop :: "string \<Rightarrow> jsval \<Rightarrow> jsobject \<Rightarrow> jsobject" where
  "set_prop k v [] = [(k, v)]"
| "set_prop k v (p # ps) = (if fst p = k then (k, v) # ps else p # set_prop k v ps)"

text \<open>
  The object literal \<^verbatim>\<open>{ ...target, ...src }\<close>: the properties of \<^verbatim>\<open>src\<close> are assigned
  one after the other, so a key of \<^verbatim>\<open>src\<close> overrides the same key of \<^verbatim>\<open>target\<close>.
\<close>

definition spread :: "jsobject \<Rightarrow> jsobject \<Rightarrow> jsobject" where
  "spread target src = foldl (\<lambda>acc p. set_prop (fst p) (snd p) acc) target src"

text \<open>The truthiness that \<^verbatim>\<open>!x\<close> and \<^verbatim>\<open>if (x)\<close> test.\<close>

fun truthy :: "jsval \<Rightarrow> bool" where
  "truthy VUndefined = False"
| "truthy VNull = False"
| "truthy (VBool b) = b"
| "truthy (VNum r) = (r \<noteq> 0)"
| "truthy VNaN = False"
| "truthy (VStr s) = (s \<noteq> [])"
| "truthy (VArr vs) = True"
| "truthy (VObj ps) = True"
| "truthy (VTimestamp t) = True"
| "truthy VServerTimestamp = True"
| "truthy (VIncrement n) = True"

text \<open>
  \<^verbatim>\<open>Math.round(ms / 1000)\<close> on an integer count of milliseconds: the nearest integer,
  a half rounded up.
\<close>

definition round_seconds :: "int \<Rightarrow> int" where
  "round_seconds ms = (ms + 500) div 1000"

section \<open>Errors, responses, the environment and the world\<close>

datatype error =
    NotFound string
  | AlreadyExists string
  | ProviderError string
  | SignError string

record response =
  status :: nat
  json :: jsval

text \<open>
  A handler either sends a response or passes an error to \<^verbatim>\<open>next\<close>.
\<close>

datatype outcome = Respond response | Next error

text \<open>
  The account settings that \<^verbatim>\<open>cloudinary.config()\<close> returns. The source sets them once,
  in its Cloudinary configuration file; they are credentials, so the handlers are modelled
  for any settings.
\<close>

record cloudinary_config =
  cloud_name :: string
  api_key :: string
  api_secret :: string

text \<open>
  What a request takes from outside the source: the clock of the server, the time at
  which the database commits a write, the identifier the database client draws for a
  new document, the functions of the Cloudinary SDK and of the JavaScript runtime.
  \<open>uploader_destroy\<close> tells whether the destroy call is rejected.
\<close>

record env =
  now_ms :: int
  commit_time :: int
  auto_id :: string
  config :: cloudinary_config
  api_sign_request :: "jsobject \<Rightarrow> string \<Rightarrow> error + string"
  uploader_destroy :: "jsval \<Rightarrow> string \<Rightarrow> error option"
  toISOString :: "int \<Rightarrow> string"

type_synonym collection = "(string \<times> jsobject) list"

text \<open>
  The world that the handlers change: the collections of the database, by name, and the
  destroy calls made to the storage provider so far.
\<close>

record world =
  db :: "string \<Rightarrow> collection"
  destroy_calls :: "(jsval \<times> string) list"

section \<open>The document database\<close>

text \<open>
  Modelled from the spec: the client of the document database (the package
  \<^verbatim>\<open>firebase-admin\<close>) is not part of the repository. Section 4.2 of the specification
  gives its contract: create assigns an identifier and the server timestamp, increment and
  update fail with NotFound when the identifier does not exist, getOne returns the record
  or NotFound, delete fails with NotFound when the record is absent, and list returns the
  records newest first. A collection is the list of its documents, each an identifier
  with its fields.
\<close>

text \<open>
  Modelled from the spec: the value that a write of the database client leaves in a
  field that held \<open>old\<close>. An increment adds to a number and sets anything else to the operand; the server
  timestamp sentinel becomes the commit time \<open>t\<close>; any other value is stored as it is.
\<close>

fun resolve :: "int \<Rightarrow> jsval \<Rightarrow> jsval \<Rightarrow> jsval" where
  "resolve t old (VIncrement n) = (case old of VNum m \<Rightarrow> VNum (m + n) | _ \<Rightarrow> VNum n)"
| "resolve t old VServerTimestamp = VTimestamp t"
| "resolve t old v = v"

text \<open>
  Modelled from the spec: the write of one field of a document by the database client.
\<close>

definition write_field :: "int \<Rightarrow> string \<Rightarrow> jsval \<Rightarrow> jsobject \<Rightarrow> jsobject" where
  "write_field t k v d = set_prop k (resolve t (get_prop d k) v) d"

text \<open>
  Modelled from the spec: the write of the fields of \<open>wdata\<close> by the database client, one
  after the other.
\<close>

definition write_fields :: "int \<Rightarrow> jsobject \<Rightarrow> jsobject \<Rightarrow> jsobject" where
  "write_fields t wdata d = foldl (\<lambda>acc p. write_field t (fst p) (snd p) acc) d wdata"

text \<open>
  Modelled from the spec: getOne of the database client, \<^verbatim>\<open>doc(id).get()\<close>; \<open>None\<close> when
  the document does not exist.
\<close>

definition store_get :: "collection \<Rightarrow> string \<Rightarrow> jsobject option" where
  "store_get c i = map_of c i"

text \<open>
  Modelled from the spec: create of the database client, \<^verbatim>\<open>add(data)\<close>, with the identifier \<open>i\<close> drawn for the
  new document. The write is refused when a document has that identifier already.
\<close>

definition store_add :: "collection \<Rightarrow> string \<Rightarrow> int \<Rightarrow> jsobject \<Rightarrow> error + collection" where
  "store_add c i t wdata =
     (if map_of c i \<noteq> None then Inl (AlreadyExists i)
      else Inr (c @ [(i, write_fields t wdata [])]))"

text \<open>
  Modelled from the spec: incrementField and updateField of the database client,
  \<^verbatim>\<open>doc(id).update(data)\<close>; the write fails when the document does not exist.
\<close>

definition store_update :: "collection \<Rightarrow> string \<Rightarrow> int \<Rightarrow> jsobject \<Rightarrow> error + collection" where
  "store_update c i t wdata =
     (if map_of c i = None then Inl (NotFound i)
      else Inr (map (\<lambda>p. if fst p = i then (fst p, write_fields t wdata (snd p)) else p) c))"

text \<open>
  Modelled from the spec: delete of the database client, \<^verbatim>\<open>doc(id).delete()\<close>; it fails
  when the document is absent.
\<close>

definition store_delete :: "collection \<Rightarrow> string \<Rightarrow> error + collection" where
  "store_delete c i =
     (if map_of c i = None then Inl (NotFound i)
      else Inr (filter (\<lambda>p. fst p \<noteq> i) c))"

text \<open>
  Modelled from the spec: the order in which a query of the database client puts the
  values of a field: by their kind first and, for booleans, numbers and timestamps, by
  their value. Timestamps are ordered by time, which is all that the creation order of
  the records needs.
\<close>

fun order_key :: "jsval \<Rightarrow> nat \<times> rat" where
  "order_key VNull = (0, 0)"
| "order_key (VBool b) = (1, of_bool b)"
| "order_key VNaN = (2, 0)"
| "order_key (VNum r) = (3, r)"
| "order_key (VTimestamp t) = (4, of_int t)"
| "order_key (VStr s) = (5, 0)"
| "order_key (VArr vs) = (6, 0)"
| "order_key (VObj ps) = (7, 0)"
| "order_key v = (8, 0)"

text \<open>
  Modelled from the spec: list of the database client,
  \<^verbatim>\<open>orderBy(field, 'desc').get()\<close>. The query returns the documents that have the
  field, the greatest value first, without any limit.
\<close>

definition order_by_desc :: "string \<Rightarrow> collection \<Rightarrow> collection" where
  "order_by_desc f c =
     rev (sort_key (\<lambda>p. order_key (get_prop (snd p) f))
            (filter (\<lambda>p. get_prop (snd p) f \<noteq> VUndefined) c))"

section \<open>The handlers of server.js\<close>

definition message :: "string \<Rightarrow> jsval" where
  "message m = VObj [(''message'', VStr m)]"

definition respond :: "nat \<Rightarrow> jsval \<Rightarrow> outcome" where
  "respond code v = Respond \<lparr>status = code, json = v\<rparr>"

text \<open>\<^verbatim>\<open>apiRouter.get('/')\<close>: the health check.\<close>

definition health_check :: "world \<Rightarrow> world \<times> outcome" where
  "health_check w = (w, respond 200 (message ''Joe Learn API is running!''))"

text \<open>
  \<^verbatim>\<open>apiRouter.post('/generate-signature')\<close>. \<open>params_to_sign\<close> is the object literal
  \<^verbatim>\<open>{ timestamp: timestamp, ...req.body }\<close> of the handler.
\<close>

definition params_to_sign :: "env \<Rightarrow> jsobject \<Rightarrow> jsobject" where
  "params_to_sign e body =
     spread [(''timestamp'', VNum (of_int (round_seconds (now_ms e))))] body"

definition generate_signature :: "env \<Rightarrow> jsobject \<Rightarrow> world \<Rightarrow> world \<times> outcome" where
  "generate_signature e body w =
     (let timestamp = round_seconds (now_ms e) in
      case api_sign_request e (params_to_sign e body) (api_secret (config e)) of
        Inr signature \<Rightarrow>
          (w, respond 200 (VObj
            [(''signature'', VStr signature),
             (''timestamp'', VNum (of_int timestamp)),
             (''api_key'', VStr (api_key (config e))),
             (''cloud_name'', VStr (cloud_name (config e)))]))
      | Inl err \<Rightarrow>
          (w, respond 500 (message ''Could not generate upload signature.'')))"

text \<open>
  \<^verbatim>\<open>doc => ({ id: doc.id, ...doc.data() })\<close>, the record that the two list handlers
  return for a document.
\<close>

definition record_of :: "string \<times> jsobject \<Rightarrow> jsval" where
  "record_of p = VObj (spread [(''id'', VStr (fst p))] (snd p))"

text \<open>\<^verbatim>\<open>apiRouter.get('/videos')\<close> and \<^verbatim>\<open>apiRouter.get('/assessments')\<close>.\<close>

definition get_videos :: "world \<Rightarrow> world \<times> outcome" where
  "get_videos w =
     (w, respond 200 (VArr (map record_of (order_by_desc ''createdAt'' (db w ''videos'')))))"

definition get_assessments :: "world \<Rightarrow> world \<times> outcome" where
  "get_assessments w =
     (w, respond 200 (VArr (map record_of (order_by_desc ''createdAt'' (db w ''assessments'')))))"

text \<open>\<^verbatim>\<open>apiRouter.post('/upload-video')\<close>.\<close>

definition newVideoData :: "jsobject \<Rightarrow> jsobject" where
  "newVideoData body =
     [(''title'', get_prop body ''title''),
      (''subject'', get_prop body ''subject''),
      (''teacher'', get_prop body ''teacherName''),
      (''url'', get_prop body ''url''),
      (''public_id'', get_prop body ''public_id''),
      (''duration'', get_prop body ''duration''),
      (''views'', VNum 0),
      (''completions'', VNum 0),
      (''createdAt'', VServerTimestamp)]"

definition upload_video :: "env \<Rightarrow> jsobject \<Rightarrow> world \<Rightarrow> world \<times> outcome" where
  "upload_video e body w =
     (if \<not> truthy (get_prop body ''title'') \<or> \<not> truthy (get_prop body ''teacherName'')
         \<or> \<not> truthy (get_prop body ''subject'') \<or> \<not> truthy (get_prop body ''url'')
         \<or> \<not> truthy (get_prop body ''public_id'') \<or> get_prop body ''duration'' = VUndefined
      then (w, respond 400 (message ''Missing required video data.''))
      else
        case store_add (db w ''videos'') (auto_id e) (commit_time e) (newVideoData body) of
          Inl err \<Rightarrow> (w, Next err)
        | Inr c \<Rightarrow>
            (w\<lparr>db := (db w)(''videos'' := c)\<rparr>,
             respond 201 (VObj
               (set_prop ''createdAt'' (VStr (toISOString e (now_ms e)))
                 (spread [(''id'', VStr (auto_id e))] (newVideoData body))))))"

text \<open>
  \<^verbatim>\<open>apiRouter.post('/videos/:id/view')\<close> and \<^verbatim>\<open>apiRouter.post('/videos/:id/complete')\<close>.
\<close>

definition view_video :: "env \<Rightarrow> string \<Rightarrow> world \<Rightarrow> world \<times> outcome" where
  "view_video e videoId w =
     (case store_update (db w ''videos'') videoId (commit_time e) [(''views'', VIncrement 1)] of
        Inl err \<Rightarrow> (w, Next err)
      | Inr c \<Rightarrow>
          (w\<lparr>db := (db w)(''videos'' := c)\<rparr>,
           respond 200 (message ''View count updated successfully.'')))"

definition complete_video :: "env \<Rightarrow> string \<Rightarrow> world \<Rightarrow> world \<times> outcome" where
  "complete_video e videoId w =
     (case store_update (db w ''videos'') videoId (commit_time e)
             [(''completions'', VIncrement 1)] of
        Inl err \<Rightarrow> (w, Next err)
      | Inr c \<Rightarrow>
          (w\<lparr>db := (db w)(''videos'' := c)\<rparr>,
           respond 200 (message ''Completion count updated successfully.'')))"

text \<open>\<^verbatim>\<open>apiRouter.post('/upload-assessment')\<close>.\<close>

definition newAssessmentData :: "jsobject \<Rightarrow> jsobject" where
  "newAssessmentData body =
     [(''title'', get_prop body ''title''),
      (''teacher'', get_prop body ''teacherName''),
      (''url'', get_prop body ''url''),
      (''public_id'', get_prop body ''public_id''),
      (''createdAt'', VServerTimestamp)]"

definition upload_assessment :: "env \<Rightarrow> jsobject \<Rightarrow> world \<Rightarrow> world \<times> outcome" where
  "upload_assessment e body w =
     (if \<not> truthy (get_prop body ''title'') \<or> \<not> truthy (get_prop body ''teacherName'')
         \<or> \<not> truthy (get_prop body ''url'') \<or> \<not> truthy (get_prop body ''public_id'')
      then (w, respond 400 (message ''Missing required assessment data.''))
      else
        case store_add (db w ''assessments'') (auto_id e) (commit_time e)
               (newAssessmentData body) of
          Inl err \<Rightarrow> (w, Next err)
        | Inr c \<Rightarrow>
            (w\<lparr>db := (db w)(''assessments'' := c)\<rparr>,
             respond 201 (VObj
               (set_prop ''createdAt'' (VStr (toISOString e (now_ms e)))
                 (spread [(''id'', VStr (auto_id e))] (newAssessmentData body))))))"

text \<open>\<^verbatim>\<open>apiRouter.put('/assessments/:id')\<close>.\<close>

definition update_assessment :: "env \<Rightarrow> string \<Rightarrow> jsobject \<Rightarrow> world \<Rightarrow> world \<times> outcome" where
  "update_assessment e assessmentId body w =
     (if \<not> truthy (get_prop body ''title'')
      then (w, respond 400 (message ''New title is required.''))
      else
        case store_update (db w ''assessments'') assessmentId (commit_time e)
               [(''title'', get_prop body ''title'')] of
          Inl err \<Rightarrow> (w, Next err)
        | Inr c \<Rightarrow>
            (w\<lparr>db := (db w)(''assessments'' := c)\<rparr>,
             respond 200 (message ''Assessment updated successfully.'')))"

text \<open>
  Modelled from the spec: the destroy call of the storage provider (section 4.3), whose
  SDK is not part of the repository,
  \<^verbatim>\<open>cloudinary.uploader.destroy(public_id, { resource_type })\<close>: the call is recorded,
  and the environment tells whether it is rejected.
\<close>

definition destroy :: "env \<Rightarrow> jsval \<Rightarrow> string \<Rightarrow> world \<Rightarrow> world \<times> error option" where
  "destroy e public_id resource_type w =
     (w\<lparr>destroy_calls := destroy_calls w @ [(public_id, resource_type)]\<rparr>,
      uploader_destroy e public_id resource_type)"

text \<open>\<^verbatim>\<open>apiRouter.delete('/assessments/:id')\<close>.\<close>

definition delete_assessment :: "env \<Rightarrow> string \<Rightarrow> world \<Rightarrow> world \<times> outcome" where
  "delete_assessment e assessmentId w =
     (case store_get (db w ''assessments'') assessmentId of
        None \<Rightarrow> (w, respond 404 (message ''Assessment not found.''))
      | Some doc_data \<Rightarrow>
          (let public_id = get_prop doc_data ''public_id'';
               (w1, rejected) =
                 (if truthy public_id then destroy e public_id ''raw'' w else (w, None))
           in case rejected of
                Some err \<Rightarrow> (w1, Next err)
              | None \<Rightarrow>
                  (case store_delete (db w1 ''assessments'') assessmentId of
                     Inl err \<Rightarrow> (w1, Next err)
                   | Inr c \<Rightarrow>
                       (w1\<lparr>db := (db w1)(''assessments'' := c)\<rparr>,
                        respond 200 (message ''Assessment deleted successfully.'')))))"

section \<open>Routing and the global error handler\<close>

datatype http_method = GET | POST | PUT | DELETE

text \<open>
  A request: its method, the segments of its path and its parsed JSON body, as the list
  of its properties (the empty object when the request has none; an array body has its
  indices as properties).
\<close>

record request =
  req_method :: http_method
  req_path :: "string list"
  req_body :: jsobject

text \<open>
  The routes of \<^verbatim>\<open>apiRouter\<close>, in the order of the source; \<open>None\<close> when no route matches.
  A path parameter \<^verbatim>\<open>:id\<close> matches one segment that is not empty.
\<close>

definition apiRouter :: "env \<Rightarrow> http_method \<Rightarrow> string list \<Rightarrow> jsobject \<Rightarrow> world
    \<Rightarrow> (world \<times> outcome) option" where
  "apiRouter e m p body w =
     (if m = GET \<and> p = [] then Some (health_check w)
      else if m = POST \<and> p = [''generate-signature''] then Some (generate_signature e body w)
      else if m = GET \<and> p = [''videos''] then Some (get_videos w)
      else if m = POST \<and> p = [''upload-video''] then Some (upload_video e body w)
      else if m = POST \<and> length p = 3 \<and> p ! 0 = ''videos'' \<and> p ! 1 \<noteq> [] \<and> p ! 2 = ''view''
        then Some (view_video e (p ! 1) w)
      else if m = POST \<and> length p = 3 \<and> p ! 0 = ''videos'' \<and> p ! 1 \<noteq> [] \<and> p ! 2 = ''complete''
        then Some (complete_video e (p ! 1) w)
      else if m = GET \<and> p = [''assessments''] then Some (get_assessments w)
      else if m = POST \<and> p = [''upload-assessment''] then Some (upload_assessment e body w)
      else if m = PUT \<and> length p = 2 \<and> p ! 0 = ''assessments'' \<and> p ! 1 \<noteq> []
        then Some (update_assessment e (p ! 1) body w)
      else if m = DELETE \<and> length p = 2 \<and> p ! 0 = ''assessments'' \<and> p ! 1 \<noteq> []
        then Some (delete_assessment e (p ! 1) w)
      else None)"

text \<open>The last middleware of the application: every error passed to \<^verbatim>\<open>next\<close> ends here.\<close>

definition error_handler :: "error \<Rightarrow> response" where
  "error_handler err =
     \<lparr>status = 500,
      json = message ''An internal server error occurred. Please check the server logs for details.''\<rparr>"

text \<open>
  What the client receives: the response of the handler, or the response of the error
  handler when the handler passed an error to \<^verbatim>\<open>next\<close>.
\<close>

definition finish :: "world \<times> outcome \<Rightarrow> world \<times> response" where
  "finish wo = (case snd wo of Respond r \<Rightarrow> (fst wo, r) | Next err \<Rightarrow> (fst wo, error_handler err))"

text \<open>
  \<^verbatim>\<open>app.use('/api', apiRouter)\<close> followed by the error handler: the new world and the
  response, or \<open>None\<close> when the request matches no route of the source.
\<close>

definition app :: "env \<Rightarrow> request \<Rightarrow> world \<Rightarrow> (world \<times> response) option" where
  "app e req w =
     (case req_path req of
        [] \<Rightarrow> None
      | seg # rest \<Rightarrow>
          if seg \<noteq> ''api'' then None
          else map_option finish (apiRouter e (req_method req) rest (req_body req) w))"

text \<open>
  The server handling requests one after the other, each with its own environment.
  A request that matches no route leaves the world as it is.
\<close>

fun run :: "(env \<times> request) list \<Rightarrow> world \<Rightarrow> world" where
  "run [] w = w"
| "run (er # ers) w =
     run ers (case app (fst er) (snd er) w of None \<Rightarrow> w | Some wr \<Rightarrow> fst wr)"

section \<open>An environment and a world for the examples\<close>

definition example_env :: env where
  "example_env =
     \<lparr>now_ms = 5000, commit_time = 7, auto_id = ''v1'',
      config = \<lparr>cloud_name = ''demo'', api_key = ''key'', api_secret = ''secret''\<rparr>,
      api_sign_request = (\<lambda>p s. Inr ''sig''),
      uploader_destroy = (\<lambda>p r. None),
      toISOString = (\<lambda>t. ''iso'')\<rparr>"

definition example_world :: world where
  "example_world =
     \<lparr>db = (\<lambda>n. if n = ''assessments''
                 then [(''a1'', [(''title'', VStr ''Quiz 1''), (''public_id'', VStr ''''),
                                 (''createdAt'', VTimestamp 3)]),
                       (''a2'', [(''title'', VStr ''Quiz 2''), (''public_id'', VStr ''raw/q2''),
                                 (''createdAt'', VTimestamp 4)])]
               else if n = ''videos''
                 then [(''v0'', [(''title'', VStr ''Intro''), (''views'', VNum 2),
                                 (''completions'', VNum 1), (''createdAt'', VTimestamp 1)]),
                       (''v2'', [(''title'', VStr ''Geometry''), (''views'', VNum 0),
                                 (''completions'', VNum 0), (''createdAt'', VTimestamp 6)])]
               else []),
      destroy_calls = []\<rparr>"

section \<open>Reading a response\<close>

text \<open>The strings that occur as values in a JSON value, at any depth.\<close>

fun string_values :: "jsval \<Rightarrow> string list" where
  "string_values (VStr s) = [s]"
| "string_values (VArr vs) = concat (map string_values vs)"
| "string_values (VObj ps) = concat (map (\<lambda>p. string_values (snd p)) ps)"
| "string_values v = []"

text \<open>The field names of a JSON object.\<close>

fun object_keys :: "jsval \<Rightarrow> string list" where
  "object_keys (VObj ps) = map fst ps"
| "object_keys v = []"

text \<open>
  The two \<^verbatim>\<open>FieldValue\<close> sentinels. They are objects of the database client, not data:
  no value of a parsed JSON body is one.
\<close>

fun is_sentinel :: "jsval \<Rightarrow> bool" where
  "is_sentinel VServerTimestamp = True"
| "is_sentinel (VIncrement n) = True"
| "is_sentinel v = False"

text \<open>A body for \<^verbatim>\<open>/api/upload-video\<close> with every required field, and a given duration.\<close>

definition example_video_body :: "jsval \<Rightarrow> jsobject" where
  "example_video_body dur =
     [(''title'', VStr ''Algebra 1''), (''teacherName'', VStr ''Ms. Lee''),
      (''subject'', VStr ''Math''), (''url'', VStr ''https://cdn.example/v.mp4''),
      (''public_id'', VStr ''joe-learn-videos/abc123''), (''duration'', dur)]"

text \<open>
  The requests that the two counter routes match for the video \<open>i\<close>, whatever their body.
\<close>

definition is_view_request :: "string \<Rightarrow> request \<Rightarrow> bool" where
  "is_view_request i r \<longleftrightarrow>
     req_method r = POST \<and> req_path r = [''api'', ''videos'', i, ''view'']"

definition is_complete_request :: "string \<Rightarrow> request \<Rightarrow> bool" where
  "is_complete_request i r \<longleftrightarrow>
     req_method r = POST \<and> req_path r = [''api'', ''videos'', i, ''complete'']"

text \<open>
  The data model gives every record its creation timestamp: a collection is dated when
  the \<^verbatim>\<open>createdAt\<close> field of each of its documents is a timestamp.
\<close>

fun is_timestamp :: "jsval \<Rightarrow> bool" where
  "is_timestamp (VTimestamp t) = True"
| "is_timestamp v = False"

definition dated :: "collection \<Rightarrow> bool" where
  "dated c = list_all (\<lambda>p. is_timestamp (get_prop (snd p) ''createdAt'')) c"

section \<open>Objects and routes\<close>

lemma map_of_set_prop: "map_of (set_prop k v d) = (map_of d)(k \<mapsto> v)"
  by (induction d) auto

lemma get_prop_set_prop: "get_prop (set_prop k v d) k' = (if k' = k then v else get_prop d k')"
  by (simp add: get_prop_def map_of_set_prop)

lemma keys_set_prop:
  "map fst (set_prop k v d) = (if k \<in> fst ` set d then map fst d else map fst d @ [k])"
  by (induction d) auto

lemma get_prop_spread_other:
  "k \<notin> fst ` set src \<Longrightarrow> get_prop (spread tgt src) k = get_prop tgt k"
  unfolding spread_def by (induction src arbitrary: tgt) (auto simp: get_prop_set_prop)

lemma map_of_None_iff: "map_of c i = None \<longleftrightarrow> i \<notin> fst ` set c"
  by (simp add: map_of_eq_None_iff)

lemma finish_respond: "finish (w, respond c v) = (w, \<lparr>status = c, json = v\<rparr>)"
  by (simp add: finish_def respond_def)

lemma finish_next: "finish (w, Next err) = (w, error_handler err)"
  by (simp add: finish_def)

lemma route_generate_signature:
  "app e \<lparr>req_method = POST, req_path = [''api'', ''generate-signature''], req_body = b\<rparr> w
     = Some (finish (generate_signature e b w))"
  by (simp add: app_def apiRouter_def)

lemma route_get_videos:
  "app e \<lparr>req_method = GET, req_path = [''api'', ''videos''], req_body = b\<rparr> w
     = Some (finish (get_videos w))"
  by (simp add: app_def apiRouter_def)

lemma route_get_assessments:
  "app e \<lparr>req_method = GET, req_path = [''api'', ''assessments''], req_body = b\<rparr> w
     = Some (finish (get_assessments w))"
  by (simp add: app_def apiRouter_def)

lemma route_upload_video:
  "app e \<lparr>req_method = POST, req_path = [''api'', ''upload-video''], req_body = b\<rparr> w
     = Some (finish (upload_video e b w))"
  by (simp add: app_def apiRouter_def)

lemma route_view_video:
  "i \<noteq> [] \<Longrightarrow>
   app e \<lparr>req_method = POST, req_path = [''api'', ''videos'', i, ''view''], req_body = b\<rparr> w
     = Some (finish (view_video e i w))"
  by (simp add: app_def apiRouter_def)

lemma route_complete_video:
  "i \<noteq> [] \<Longrightarrow>
   app e \<lparr>req_method = POST, req_path = [''api'', ''videos'', i, ''complete''], req_body = b\<rparr> w
     = Some (finish (complete_video e i w))"
  by (simp add: app_def apiRouter_def)

lemma route_delete_assessment:
  "i \<noteq> [] \<Longrightarrow>
   app e \<lparr>req_method = DELETE, req_path = [''api'', ''assessments'', i], req_body = b\<rparr> w
     = Some (finish (delete_assessment e i w))"
  by (simp add: app_def apiRouter_def)

section \<open>Deleting an assessment that does not exist\<close>

text \<open>
  Claim C5. A DELETE of \<^verbatim>\<open>/api/assessments/:id\<close> whose id names no document of the
  assessments collection is answered with status 404, and the world after the request is
  the world before it: the collection is unchanged and no destroy call has been made.
\<close>

theorem delete_missing_assessment:
  assumes "i \<noteq> []" and "i \<notin> fst ` set (db w ''assessments'')"
  shows "app e \<lparr>req_method = DELETE, req_path = [''api'', ''assessments'', i], req_body = b\<rparr> w
           = Some (w, \<lparr>status = 404, json = message ''Assessment not found.''\<rparr>)"
proof -
  from assms(2) have "store_get (db w ''assessments'') i = None"
    by (simp add: store_get_def map_of_None_iff)
  then have "delete_assessment e i w = (w, respond 404 (message ''Assessment not found.''))"
    by (simp add: delete_assessment_def)
  with assms(1) show ?thesis
    by (simp add: route_delete_assessment finish_respond)
qed

theorem delete_missing_assessment_witness:
  "''zz'' \<noteq> [] \<and> ''zz'' \<notin> fst ` set (db example_world ''assessments'')
   \<and> app example_env
         \<lparr>req_method = DELETE, req_path = [''api'', ''assessments'', ''zz''], req_body = []\<rparr>
         example_world
       = Some (example_world, \<lparr>status = 404, json = message ''Assessment not found.''\<rparr>)"
proof -
  have h: "''zz'' \<notin> fst ` set (db example_world ''assessments'')"
    by (simp add: example_world_def)
  show ?thesis
    using h delete_missing_assessment [of "''zz''" example_world example_env "[]"] by simp
qed

section \<open>Incrementing a counter of a video that does not exist\<close>

text \<open>
  Claim C7. A POST of \<^verbatim>\<open>/api/videos/:id/view\<close> or \<^verbatim>\<open>/api/videos/:id/complete\<close> whose id
  names no document of the videos collection: the handler passes the NotFound error of
  the database to \<^verbatim>\<open>next\<close>, the error handler answers with status 500 (not 404) and the
  fixed message, which is the same for every error and so carries no detail of it, and
  the world is unchanged.
\<close>

theorem increment_missing_video:
  assumes "i \<noteq> []" and "i \<notin> fst ` set (db w ''videos'')"
  shows "view_video e i w = (w, Next (NotFound i))
       \<and> complete_video e i w = (w, Next (NotFound i))
       \<and> app e \<lparr>req_method = POST, req_path = [''api'', ''videos'', i, ''view''], req_body = b\<rparr> w
           = Some (w, error_handler (NotFound i))
       \<and> app e \<lparr>req_method = POST, req_path = [''api'', ''videos'', i, ''complete''], req_body = b\<rparr> w
           = Some (w, error_handler (NotFound i))
       \<and> error_handler (NotFound i)
           = \<lparr>status = 500,
              json = VObj [(''message'', VStr ''An internal server error occurred. Please check the server logs for details.'')]\<rparr>
       \<and> error_handler err = error_handler (NotFound i)"
proof -
  from assms(2) have missing: "map_of (db w ''videos'') i = None"
    by (simp add: map_of_None_iff)
  have v: "view_video e i w = (w, Next (NotFound i))"
    using missing by (simp add: view_video_def store_update_def)
  have c: "complete_video e i w = (w, Next (NotFound i))"
    using missing by (simp add: complete_video_def store_update_def)
  show ?thesis
    using assms(1) v c
    by (simp add: route_view_video route_complete_video finish_next error_handler_def message_def)
qed

theorem increment_missing_video_witness:
  "''zz'' \<noteq> [] \<and> ''zz'' \<notin> fst ` set (db example_world ''videos'')
   \<and> app example_env
         \<lparr>req_method = POST, req_path = [''api'', ''videos'', ''zz'', ''view''], req_body = []\<rparr>
         example_world
       = Some (example_world, \<lparr>status = 500,
              json = VObj [(''message'', VStr ''An internal server error occurred. Please check the server logs for details.'')]\<rparr>)
   \<and> app example_env
         \<lparr>req_method = POST, req_path = [''api'', ''videos'', ''zz'', ''complete''], req_body = []\<rparr>
         example_world
       = Some (example_world, \<lparr>status = 500,
              json = VObj [(''message'', VStr ''An internal server error occurred. Please check the server logs for details.'')]\<rparr>)"
proof -
  have h: "''zz'' \<notin> fst ` set (db example_world ''videos'')"
    by (simp add: example_world_def)
  show ?thesis
    using h increment_missing_video [of "''zz''" example_world example_env "[]" "NotFound ''zz''"]
    by simp
qed

section \<open>Deleting an assessment that exists\<close>

lemma delete_assessment_falsy:
  assumes "map_of (db w ''assessments'') i = Some d" and "\<not> truthy (get_prop d ''public_id'')"
  shows "delete_assessment e i w
           = (w\<lparr>db := (db w)(''assessments'' := filter (\<lambda>p. fst p \<noteq> i) (db w ''assessments''))\<rparr>,
              respond 200 (message ''Assessment deleted successfully.''))"
  using assms by (simp add: delete_assessment_def store_get_def store_delete_def)

lemma delete_assessment_truthy:
  assumes "map_of (db w ''assessments'') i = Some d" and "truthy (get_prop d ''public_id'')"
    and "uploader_destroy e (get_prop d ''public_id'') ''raw'' = None"
  shows "delete_assessment e i w
           = (w\<lparr>db := (db w)(''assessments'' := filter (\<lambda>p. fst p \<noteq> i) (db w ''assessments'')),
                destroy_calls := destroy_calls w @ [(get_prop d ''public_id'', ''raw'')]\<rparr>,
              respond 200 (message ''Assessment deleted successfully.''))"
  using assms by (simp add: delete_assessment_def store_get_def store_delete_def destroy_def)

lemma order_by_desc_subset: "set (order_by_desc f c) \<subseteq> set c"
  by (auto simp: order_by_desc_def)

lemma not_listed_after_delete:
  "i \<notin> fst ` set (order_by_desc f (filter (\<lambda>p. fst p \<noteq> i) c))"
  using order_by_desc_subset [of f "filter (\<lambda>p. fst p \<noteq> i) c"] by auto

text \<open>
  Claim C3, as amended. A DELETE of \<^verbatim>\<open>/api/assessments/:id\<close> whose id names a document
  of the assessments collection with a truthy \<^verbatim>\<open>public_id\<close>, when the storage provider
  does not reject the call: the documents with that id are removed from the collection,
  so the id is not among the documents a later list query returns; exactly one destroy
  call is added, with the \<^verbatim>\<open>public_id\<close> of the document and the resource type
  \<^verbatim>\<open>raw\<close>; the response has status 200.
\<close>

theorem delete_existing_assessment:
  assumes "i \<noteq> []" and "map_of (db w ''assessments'') i = Some d"
    and "truthy (get_prop d ''public_id'')"
    and "uploader_destroy e (get_prop d ''public_id'') ''raw'' = None"
  shows "app e \<lparr>req_method = DELETE, req_path = [''api'', ''assessments'', i], req_body = b\<rparr> w
           = Some (w\<lparr>db := (db w)(''assessments'' := filter (\<lambda>p. fst p \<noteq> i) (db w ''assessments'')),
                     destroy_calls := destroy_calls w @ [(get_prop d ''public_id'', ''raw'')]\<rparr>,
                   \<lparr>status = 200, json = message ''Assessment deleted successfully.''\<rparr>)
       \<and> i \<notin> fst ` set (filter (\<lambda>p. fst p \<noteq> i) (db w ''assessments''))
       \<and> i \<notin> fst ` set (order_by_desc ''createdAt'' (filter (\<lambda>p. fst p \<noteq> i) (db w ''assessments'')))"
proof -
  have "app e \<lparr>req_method = DELETE, req_path = [''api'', ''assessments'', i], req_body = b\<rparr> w
           = Some (w\<lparr>db := (db w)(''assessments'' := filter (\<lambda>p. fst p \<noteq> i) (db w ''assessments'')),
                     destroy_calls := destroy_calls w @ [(get_prop d ''public_id'', ''raw'')]\<rparr>,
                   \<lparr>status = 200, json = message ''Assessment deleted successfully.''\<rparr>)"
    using assms by (simp add: route_delete_assessment delete_assessment_truthy finish_respond)
  moreover have "i \<notin> fst ` set (filter (\<lambda>p. fst p \<noteq> i) (db w ''assessments''))"
    by auto
  ultimately show ?thesis
    using not_listed_after_delete by blast
qed

theorem delete_existing_assessment_witness:
  "map_of (db example_world ''assessments'') ''a2''
     = Some [(''title'', VStr ''Quiz 2''), (''public_id'', VStr ''raw/q2''), (''createdAt'', VTimestamp 4)]
   \<and> app example_env
         \<lparr>req_method = DELETE, req_path = [''api'', ''assessments'', ''a2''], req_body = []\<rparr>
         example_world
       = Some (example_world\<lparr>db := (db example_world)(''assessments'' :=
                  [(''a1'', [(''title'', VStr ''Quiz 1''), (''public_id'', VStr ''''),
                             (''createdAt'', VTimestamp 3)])]),
                 destroy_calls := [(VStr ''raw/q2'', ''raw'')]\<rparr>,
               \<lparr>status = 200, json = message ''Assessment deleted successfully.''\<rparr>)"
proof -
  have h: "map_of (db example_world ''assessments'') ''a2''
     = Some [(''title'', VStr ''Quiz 2''), (''public_id'', VStr ''raw/q2''), (''createdAt'', VTimestamp 4)]"
    by (simp add: example_world_def)
  have p: "get_prop [(''title'', VStr ''Quiz 2''), (''public_id'', VStr ''raw/q2''),
                     (''createdAt'', VTimestamp 4)] ''public_id'' = VStr ''raw/q2''"
    by (simp add: get_prop_def)
  have t: "truthy (get_prop [(''title'', VStr ''Quiz 2''), (''public_id'', VStr ''raw/q2''),
                             (''createdAt'', VTimestamp 4)] ''public_id'')"
    by (simp add: p)
  have u: "uploader_destroy example_env
             (get_prop [(''title'', VStr ''Quiz 2''), (''public_id'', VStr ''raw/q2''),
                        (''createdAt'', VTimestamp 4)] ''public_id'') ''raw'' = None"
    by (simp add: example_env_def)
  have c: "filter (\<lambda>p. fst p \<noteq> ''a2'') (db example_world ''assessments'')
      = [(''a1'', [(''title'', VStr ''Quiz 1''), (''public_id'', VStr ''''),
                   (''createdAt'', VTimestamp 3)])]"
    by (simp add: example_world_def)
  have d: "destroy_calls example_world = []"
    by (simp add: example_world_def)
  show ?thesis
    using h delete_existing_assessment [OF _ h t u, of "[]"]
    by (simp add: c d p)
qed

text \<open>
  The claim as first stated, for every existing document, fails where the stored
  \<^verbatim>\<open>public_id\<close> is the empty string: the document exists, the response has status 200,
  and no destroy call has been made.
\<close>

theorem delete_existing_assessment_counterexample:
  "map_of (db example_world ''assessments'') ''a1''
     = Some [(''title'', VStr ''Quiz 1''), (''public_id'', VStr ''''), (''createdAt'', VTimestamp 3)]
   \<and> destroy_calls example_world = []
   \<and> map_option (\<lambda>wr. (status (snd wr), destroy_calls (fst wr)))
        (app example_env
           \<lparr>req_method = DELETE, req_path = [''api'', ''assessments'', ''a1''], req_body = []\<rparr>
           example_world)
       = Some (200, [])"
  by (simp add: route_delete_assessment delete_assessment_def store_get_def store_delete_def
      get_prop_def finish_respond example_world_def)

text \<open>
  Claim C10. A DELETE of \<^verbatim>\<open>/api/assessments/:id\<close> whose id names a document whose
  \<^verbatim>\<open>public_id\<close> is absent or falsy: the handler makes no destroy call, removes the
  documents with that id from the collection and answers with status 200.
\<close>

theorem delete_assessment_without_public_id:
  assumes "i \<noteq> []" and "map_of (db w ''assessments'') i = Some d"
    and "\<not> truthy (get_prop d ''public_id'')"
  shows "app e \<lparr>req_method = DELETE, req_path = [''api'', ''assessments'', i], req_body = b\<rparr> w
           = Some (w\<lparr>db := (db w)(''assessments'' := filter (\<lambda>p. fst p \<noteq> i) (db w ''assessments''))\<rparr>,
                   \<lparr>status = 200, json = message ''Assessment deleted successfully.''\<rparr>)
       \<and> destroy_calls (w\<lparr>db := (db w)(''assessments'' := filter (\<lambda>p. fst p \<noteq> i) (db w ''assessments''))\<rparr>)
           = destroy_calls w
       \<and> i \<notin> fst ` set (filter (\<lambda>p. fst p \<noteq> i) (db w ''assessments''))"
  using assms by (auto simp add: route_delete_assessment delete_assessment_falsy finish_respond)

theorem delete_assessment_without_public_id_witness:
  "map_of (db example_world ''assessments'') ''a1''
     = Some [(''title'', VStr ''Quiz 1''), (''public_id'', VStr ''''), (''createdAt'', VTimestamp 3)]
   \<and> app example_env
         \<lparr>req_method = DELETE, req_path = [''api'', ''assessments'', ''a1''], req_body = []\<rparr>
         example_world
       = Some (example_world\<lparr>db := (db example_world)(''assessments'' :=
                  [(''a2'', [(''title'', VStr ''Quiz 2''), (''public_id'', VStr ''raw/q2''),
                             (''createdAt'', VTimestamp 4)])])\<rparr>,
               \<lparr>status = 200, json = message ''Assessment deleted successfully.''\<rparr>)"
proof -
  have h: "map_of (db example_world ''assessments'') ''a1''
     = Some [(''title'', VStr ''Quiz 1''), (''public_id'', VStr ''''), (''createdAt'', VTimestamp 3)]"
    by (simp add: example_world_def)
  have f: "\<not> truthy (get_prop [(''title'', VStr ''Quiz 1''), (''public_id'', VStr ''''),
                               (''createdAt'', VTimestamp 3)] ''public_id'')"
    by (simp add: get_prop_def)
  have c: "filter (\<lambda>p. fst p \<noteq> ''a1'') (db example_world ''assessments'')
      = [(''a2'', [(''title'', VStr ''Quiz 2''), (''public_id'', VStr ''raw/q2''),
                   (''createdAt'', VTimestamp 4)])]"
    by (simp add: example_world_def)
  show ?thesis
    using h delete_assessment_without_public_id [OF _ h f, of example_env "[]"]
    by (simp add: c)
qed

section \<open>Signing an upload\<close>

lemma generate_signature_timestamp_agrees:
  assumes "''timestamp'' \<notin> fst ` set body"
    and "api_sign_request e (params_to_sign e body) (api_secret (config e)) = Inr sig"
  shows "\<exists>r. app e \<lparr>req_method = POST, req_path = [''api'', ''generate-signature''], req_body = body\<rparr> w
               = Some (w, r)
           \<and> status r = 200
           \<and> (case json r of VObj ps \<Rightarrow> get_prop ps ''timestamp'' | _ \<Rightarrow> VUndefined) = get_prop (params_to_sign e body) ''timestamp''"
  using assms
  by (simp add: route_generate_signature generate_signature_def finish_respond
      params_to_sign_def get_prop_spread_other) (simp add: get_prop_def)

lemma spread_overrides:
  assumes "distinct (map fst src)" and "(k, v) \<in> set src"
  shows "get_prop (spread tgt src) k = v"
  using assms
proof (induction src arbitrary: tgt)
  case Nil
  then show ?case by simp
next
  case (Cons p ps)
  show ?case
  proof (cases "p = (k, v)")
    case True
    with Cons.prems(1) have "k \<notin> fst ` set ps"
      by auto
    then have "get_prop (spread (set_prop k v tgt) ps) k = get_prop (set_prop k v tgt) k"
      by (rule get_prop_spread_other)
    with True show ?thesis
      by (simp add: spread_def get_prop_set_prop)
  next
    case False
    with Cons.prems have "distinct (map fst ps)" and "(k, v) \<in> set ps"
      by auto
    then have "get_prop (spread (set_prop (fst p) (snd p) tgt) ps) k = v"
      by (rule Cons.IH)
    then show ?thesis
      by (simp add: spread_def)
  qed
qed

lemma params_to_sign_client_timestamp:
  assumes "distinct (map fst body)" and "(''timestamp'', v) \<in> set body"
  shows "get_prop (params_to_sign e body) ''timestamp'' = v"
  unfolding params_to_sign_def using assms by (rule spread_overrides)

text \<open>
  Claim C1. The handler signs the object \<^verbatim>\<open>{ timestamp: timestamp, ...req.body }\<close> and
  returns the timestamp of its own clock. Where the body has no \<^verbatim>\<open>timestamp\<close> field
  the two agree (\<open>generate_signature_timestamp_agrees\<close>). Where it has one, the body's
  value replaces the server's in the signed parameters
  (\<open>params_to_sign_client_timestamp\<close>), and the response still carries the server's: with
  the clock at 5000 ms and the body \<^verbatim>\<open>{timestamp: 1, folder: "joe-learn-videos"}\<close> the
  signed timestamp is 1 and the returned timestamp is 5.
\<close>

theorem generate_signature_client_timestamp:
  "params_to_sign example_env [(''timestamp'', VNum 1), (''folder'', VStr ''joe-learn-videos'')]
     = [(''timestamp'', VNum 1), (''folder'', VStr ''joe-learn-videos'')]
   \<and> app example_env
         \<lparr>req_method = POST, req_path = [''api'', ''generate-signature''],
          req_body = [(''timestamp'', VNum 1), (''folder'', VStr ''joe-learn-videos'')]\<rparr>
         example_world
       = Some (example_world,
               \<lparr>status = 200,
                json = VObj [(''signature'', VStr ''sig''), (''timestamp'', VNum 5),
                             (''api_key'', VStr ''key''), (''cloud_name'', VStr ''demo'')]\<rparr>)"
  by (simp add: route_generate_signature generate_signature_def finish_respond
      params_to_sign_def spread_def round_seconds_def example_env_def)

text \<open>
  Claim C8. For every body, the response to POST \<^verbatim>\<open>/api/generate-signature\<close> does not
  hold the secret of the storage provider: a success response has exactly the fields
  \<^verbatim>\<open>signature\<close>, \<^verbatim>\<open>timestamp\<close>, \<^verbatim>\<open>api_key\<close> and \<^verbatim>\<open>cloud_name\<close> and none of its
  string values is the secret; a failure response has status 500 and only the fixed
  message, without a signature. The account key and the account name are settings other
  than the secret, and the signing function does not return the secret as the signature.
\<close>

theorem signature_response_without_secret:
  assumes "api_key (config e) \<noteq> api_secret (config e)"
    and "cloud_name (config e) \<noteq> api_secret (config e)"
    and "api_sign_request e (params_to_sign e body) (api_secret (config e))
           \<noteq> Inr (api_secret (config e))"
  shows "\<exists>r. app e \<lparr>req_method = POST, req_path = [''api'', ''generate-signature''], req_body = body\<rparr> w
               = Some (w, r)
           \<and> (status r = 200
                \<and> object_keys (json r) = [''signature'', ''timestamp'', ''api_key'', ''cloud_name'']
                \<and> api_secret (config e) \<notin> set (string_values (json r))
              \<or> status r = 500
                \<and> json r = VObj [(''message'', VStr ''Could not generate upload signature.'')])"
proof (cases "api_sign_request e (params_to_sign e body) (api_secret (config e))")
  case (Inl err)
  then show ?thesis
    by (simp add: route_generate_signature generate_signature_def finish_respond message_def)
next
  case (Inr sig)
  with assms show ?thesis
    by (auto simp add: route_generate_signature generate_signature_def finish_respond)
qed

theorem signature_response_without_secret_witness:
  "api_key (config example_env) \<noteq> api_secret (config example_env)
   \<and> cloud_name (config example_env) \<noteq> api_secret (config example_env)
   \<and> api_sign_request example_env (params_to_sign example_env [(''folder'', VStr ''joe-learn-videos'')])
         (api_secret (config example_env)) \<noteq> Inr (api_secret (config example_env))
   \<and> (\<exists>r. app example_env
              \<lparr>req_method = POST, req_path = [''api'', ''generate-signature''],
               req_body = [(''folder'', VStr ''joe-learn-videos'')]\<rparr> example_world
               = Some (example_world, r)
           \<and> status r = 200
           \<and> object_keys (json r) = [''signature'', ''timestamp'', ''api_key'', ''cloud_name'']
           \<and> ''secret'' \<notin> set (string_values (json r)))"
proof -
  have a: "api_key (config example_env) \<noteq> api_secret (config example_env)"
    by (simp add: example_env_def)
  have b: "cloud_name (config example_env) \<noteq> api_secret (config example_env)"
    by (simp add: example_env_def)
  have c: "api_sign_request example_env (params_to_sign example_env [(''folder'', VStr ''joe-learn-videos'')])
         (api_secret (config example_env)) \<noteq> Inr (api_secret (config example_env))"
    by (simp add: example_env_def)
  have s: "api_secret (config example_env) = ''secret''"
    by (simp add: example_env_def)
  from signature_response_without_secret [OF a b c, of example_world]
  obtain r where r: "app example_env
              \<lparr>req_method = POST, req_path = [''api'', ''generate-signature''],
               req_body = [(''folder'', VStr ''joe-learn-videos'')]\<rparr> example_world
               = Some (example_world, r)"
     and d: "status r = 200
                \<and> object_keys (json r) = [''signature'', ''timestamp'', ''api_key'', ''cloud_name'']
                \<and> api_secret (config example_env) \<notin> set (string_values (json r))
              \<or> status r = 500
                \<and> json r = VObj [(''message'', VStr ''Could not generate upload signature.'')]"
    by blast
  have "status r = 200"
    using r by (simp add: route_generate_signature generate_signature_def finish_respond
        example_env_def) auto
  with d s have "status r = 200
           \<and> object_keys (json r) = [''signature'', ''timestamp'', ''api_key'', ''cloud_name'']
           \<and> ''secret'' \<notin> set (string_values (json r))"
    by simp
  with a b c r show ?thesis by blast
qed

section \<open>Creating a video\<close>

lemma resolve_data: "\<not> is_sentinel v \<Longrightarrow> resolve t old v = v"
  by (cases v) simp_all

lemma stored_video:
  "write_fields t (newVideoData body) []
     = [(''title'', resolve t VUndefined (get_prop body ''title'')),
        (''subject'', resolve t VUndefined (get_prop body ''subject'')),
        (''teacher'', resolve t VUndefined (get_prop body ''teacherName'')),
        (''url'', resolve t VUndefined (get_prop body ''url'')),
        (''public_id'', resolve t VUndefined (get_prop body ''public_id'')),
        (''duration'', resolve t VUndefined (get_prop body ''duration'')),
        (''views'', VNum 0),
        (''completions'', VNum 0),
        (''createdAt'', VTimestamp t)]"
  by (simp add: write_fields_def newVideoData_def write_field_def get_prop_def)

lemma newVideo_response:
  "set_prop ''createdAt'' c (spread [(''id'', i)] (newVideoData body))
     = [(''id'', i),
        (''title'', get_prop body ''title''),
        (''subject'', get_prop body ''subject''),
        (''teacher'', get_prop body ''teacherName''),
        (''url'', get_prop body ''url''),
        (''public_id'', get_prop body ''public_id''),
        (''duration'', get_prop body ''duration''),
        (''views'', VNum 0),
        (''completions'', VNum 0),
        (''createdAt'', c)]"
  by (simp add: spread_def newVideoData_def)

lemma upload_video_rejected:
  assumes "\<not> truthy (get_prop body ''title'') \<or> \<not> truthy (get_prop body ''teacherName'')
         \<or> \<not> truthy (get_prop body ''subject'') \<or> \<not> truthy (get_prop body ''url'')
         \<or> \<not> truthy (get_prop body ''public_id'') \<or> get_prop body ''duration'' = VUndefined"
  shows "upload_video e body w = (w, respond 400 (message ''Missing required video data.''))"
  using assms unfolding upload_video_def by presburger

lemma upload_video_accepted:
  assumes "truthy (get_prop body ''title'')" and "truthy (get_prop body ''teacherName'')"
    and "truthy (get_prop body ''subject'')" and "truthy (get_prop body ''url'')"
    and "truthy (get_prop body ''public_id'')" and "get_prop body ''duration'' \<noteq> VUndefined"
  shows "upload_video e body w =
     (case store_add (db w ''videos'') (auto_id e) (commit_time e) (newVideoData body) of
          Inl err \<Rightarrow> (w, Next err)
        | Inr c \<Rightarrow>
            (w\<lparr>db := (db w)(''videos'' := c)\<rparr>,
             respond 201 (VObj
               (set_prop ''createdAt'' (VStr (toISOString e (now_ms e)))
                 (spread [(''id'', VStr (auto_id e))] (newVideoData body))))))"
  using assms unfolding upload_video_def by presburger

lemma upload_video_created:
  assumes "truthy (get_prop body ''title'')" and "truthy (get_prop body ''teacherName'')"
    and "truthy (get_prop body ''subject'')" and "truthy (get_prop body ''url'')"
    and "truthy (get_prop body ''public_id'')" and "get_prop body ''duration'' \<noteq> VUndefined"
    and "auto_id e \<notin> fst ` set (db w ''videos'')"
  shows "upload_video e body w =
     (w\<lparr>db := (db w)(''videos'' := db w ''videos'' @
           [(auto_id e, write_fields (commit_time e) (newVideoData body) [])])\<rparr>,
      respond 201 (VObj
        [(''id'', VStr (auto_id e)),
         (''title'', get_prop body ''title''),
         (''subject'', get_prop body ''subject''),
         (''teacher'', get_prop body ''teacherName''),
         (''url'', get_prop body ''url''),
         (''public_id'', get_prop body ''public_id''),
         (''duration'', get_prop body ''duration''),
         (''views'', VNum 0),
         (''completions'', VNum 0),
         (''createdAt'', VStr (toISOString e (now_ms e)))]))"
proof -
  from assms(7) have "map_of (db w ''videos'') (auto_id e) = None"
    by (simp add: map_of_None_iff)
  then have "store_add (db w ''videos'') (auto_id e) (commit_time e) (newVideoData body)
      = Inr (db w ''videos'' @ [(auto_id e, write_fields (commit_time e) (newVideoData body) [])])"
    by (simp add: store_add_def)
  then show ?thesis
    by (simp add: upload_video_accepted [OF assms(1-6)] newVideo_response)
qed

lemma example_video_body_props:
  "get_prop (example_video_body dur) ''title'' = VStr ''Algebra 1''"
  "get_prop (example_video_body dur) ''teacherName'' = VStr ''Ms. Lee''"
  "get_prop (example_video_body dur) ''subject'' = VStr ''Math''"
  "get_prop (example_video_body dur) ''url'' = VStr ''https://cdn.example/v.mp4''"
  "get_prop (example_video_body dur) ''public_id'' = VStr ''joe-learn-videos/abc123''"
  "get_prop (example_video_body dur) ''duration'' = dur"
  by (simp_all add: example_video_body_def get_prop_def)

lemma get_prop_Nil: "get_prop [] k = VUndefined"
  by (simp add: get_prop_def)

lemma get_prop_Cons: "get_prop ((k, v) # ps) k' = (if k' = k then v else get_prop ps k')"
  by (simp add: get_prop_def)

text \<open>
  Claim C2, as amended. A POST of \<^verbatim>\<open>/api/upload-video\<close> in which one of \<^verbatim>\<open>title\<close>,
  \<^verbatim>\<open>teacherName\<close>, \<^verbatim>\<open>subject\<close>, \<^verbatim>\<open>url\<close>, \<^verbatim>\<open>public_id\<close> is absent (or falsy in any
  other way) or \<^verbatim>\<open>duration\<close> is undefined is answered with status 400, and the world
  is unchanged: no record is written. A request in which those five fields are truthy
  and \<^verbatim>\<open>duration\<close> is 0, when the database accepts the write (the identifier drawn
  for the document is not in use), is answered with status 201 and the full record; one
  document is added to the videos collection, with duration 0, both counters 0 and the
  commit time as \<^verbatim>\<open>createdAt\<close>.
\<close>

theorem upload_video_required_fields:
  "(\<not> truthy (get_prop body ''title'') \<or> \<not> truthy (get_prop body ''teacherName'')
      \<or> \<not> truthy (get_prop body ''subject'') \<or> \<not> truthy (get_prop body ''url'')
      \<or> \<not> truthy (get_prop body ''public_id'') \<or> get_prop body ''duration'' = VUndefined
    \<longrightarrow> app e \<lparr>req_method = POST, req_path = [''api'', ''upload-video''], req_body = body\<rparr> w
          = Some (w, \<lparr>status = 400, json = message ''Missing required video data.''\<rparr>))
   \<and> (truthy (get_prop body ''title'') \<and> truthy (get_prop body ''teacherName'')
      \<and> truthy (get_prop body ''subject'') \<and> truthy (get_prop body ''url'')
      \<and> truthy (get_prop body ''public_id'') \<and> get_prop body ''duration'' = VNum 0
      \<and> auto_id e \<notin> fst ` set (db w ''videos'')
    \<longrightarrow> (\<exists>d. app e \<lparr>req_method = POST, req_path = [''api'', ''upload-video''], req_body = body\<rparr> w
               = Some (w\<lparr>db := (db w)(''videos'' := db w ''videos'' @ [(auto_id e, d)])\<rparr>,
                       \<lparr>status = 201,
                        json = VObj
                          [(''id'', VStr (auto_id e)),
                           (''title'', get_prop body ''title''),
                           (''subject'', get_prop body ''subject''),
                           (''teacher'', get_prop body ''teacherName''),
                           (''url'', get_prop body ''url''),
                           (''public_id'', get_prop body ''public_id''),
                           (''duration'', VNum 0),
                           (''views'', VNum 0),
                           (''completions'', VNum 0),
                           (''createdAt'', VStr (toISOString e (now_ms e)))]\<rparr>)
             \<and> map fst d = [''title'', ''subject'', ''teacher'', ''url'', ''public_id'',
                             ''duration'', ''views'', ''completions'', ''createdAt'']
             \<and> get_prop d ''duration'' = VNum 0
             \<and> get_prop d ''views'' = VNum 0
             \<and> get_prop d ''completions'' = VNum 0
             \<and> get_prop d ''createdAt'' = VTimestamp (commit_time e)))"
proof (intro conjI impI)
  assume "\<not> truthy (get_prop body ''title'') \<or> \<not> truthy (get_prop body ''teacherName'')
      \<or> \<not> truthy (get_prop body ''subject'') \<or> \<not> truthy (get_prop body ''url'')
      \<or> \<not> truthy (get_prop body ''public_id'') \<or> get_prop body ''duration'' = VUndefined"
  then show "app e \<lparr>req_method = POST, req_path = [''api'', ''upload-video''], req_body = body\<rparr> w
          = Some (w, \<lparr>status = 400, json = message ''Missing required video data.''\<rparr>)"
    by (simp only: route_upload_video upload_video_rejected finish_respond)
next
  assume a: "truthy (get_prop body ''title'') \<and> truthy (get_prop body ''teacherName'')
      \<and> truthy (get_prop body ''subject'') \<and> truthy (get_prop body ''url'')
      \<and> truthy (get_prop body ''public_id'') \<and> get_prop body ''duration'' = VNum 0
      \<and> auto_id e \<notin> fst ` set (db w ''videos'')"
  then have dur: "get_prop body ''duration'' = VNum 0" and "get_prop body ''duration'' \<noteq> VUndefined"
    by simp_all
  with a have u: "upload_video e body w =
     (w\<lparr>db := (db w)(''videos'' := db w ''videos'' @
           [(auto_id e, write_fields (commit_time e) (newVideoData body) [])])\<rparr>,
      respond 201 (VObj
        [(''id'', VStr (auto_id e)),
         (''title'', get_prop body ''title''),
         (''subject'', get_prop body ''subject''),
         (''teacher'', get_prop body ''teacherName''),
         (''url'', get_prop body ''url''),
         (''public_id'', get_prop body ''public_id''),
         (''duration'', get_prop body ''duration''),
         (''views'', VNum 0),
         (''completions'', VNum 0),
         (''createdAt'', VStr (toISOString e (now_ms e)))]))"
    by (intro upload_video_created) simp_all
  let ?d = "write_fields (commit_time e) (newVideoData body) []"
  have 1: "app e \<lparr>req_method = POST, req_path = [''api'', ''upload-video''], req_body = body\<rparr> w
               = Some (w\<lparr>db := (db w)(''videos'' := db w ''videos'' @ [(auto_id e, ?d)])\<rparr>,
                       \<lparr>status = 201,
                        json = VObj
                          [(''id'', VStr (auto_id e)),
                           (''title'', get_prop body ''title''),
                           (''subject'', get_prop body ''subject''),
                           (''teacher'', get_prop body ''teacherName''),
                           (''url'', get_prop body ''url''),
                           (''public_id'', get_prop body ''public_id''),
                           (''duration'', VNum 0),
                           (''views'', VNum 0),
                           (''completions'', VNum 0),
                           (''createdAt'', VStr (toISOString e (now_ms e)))]\<rparr>)"
    by (simp only: route_upload_video u finish_respond dur)
  have 2: "map fst ?d = [''title'', ''subject'', ''teacher'', ''url'', ''public_id'',
                             ''duration'', ''views'', ''completions'', ''createdAt'']"
    by (simp add: stored_video)
  have 3: "get_prop ?d ''duration'' = VNum 0"
    by (simp add: stored_video get_prop_Cons dur)
  have 4: "get_prop ?d ''views'' = VNum 0" "get_prop ?d ''completions'' = VNum 0"
       "get_prop ?d ''createdAt'' = VTimestamp (commit_time e)"
    by (simp_all add: stored_video get_prop_Cons)
  show "\<exists>d. app e \<lparr>req_method = POST, req_path = [''api'', ''upload-video''], req_body = body\<rparr> w
               = Some (w\<lparr>db := (db w)(''videos'' := db w ''videos'' @ [(auto_id e, d)])\<rparr>,
                       \<lparr>status = 201,
                        json = VObj
                          [(''id'', VStr (auto_id e)),
                           (''title'', get_prop body ''title''),
                           (''subject'', get_prop body ''subject''),
                           (''teacher'', get_prop body ''teacherName''),
                           (''url'', get_prop body ''url''),
                           (''public_id'', get_prop body ''public_id''),
                           (''duration'', VNum 0),
                           (''views'', VNum 0),
                           (''completions'', VNum 0),
                           (''createdAt'', VStr (toISOString e (now_ms e)))]\<rparr>)
             \<and> map fst d = [''title'', ''subject'', ''teacher'', ''url'', ''public_id'',
                             ''duration'', ''views'', ''completions'', ''createdAt'']
             \<and> get_prop d ''duration'' = VNum 0
             \<and> get_prop d ''views'' = VNum 0
             \<and> get_prop d ''completions'' = VNum 0
             \<and> get_prop d ''createdAt'' = VTimestamp (commit_time e)"
    by (rule exI [of _ ?d]) (intro conjI; fact)
qed

theorem upload_video_required_fields_witness:
  "get_prop [(''title'', VStr ''Algebra 1'')] ''duration'' = VUndefined
   \<and> app example_env
         \<lparr>req_method = POST, req_path = [''api'', ''upload-video''],
          req_body = [(''title'', VStr ''Algebra 1'')]\<rparr> example_world
       = Some (example_world, \<lparr>status = 400, json = message ''Missing required video data.''\<rparr>)
   \<and> truthy (get_prop (example_video_body (VNum 0)) ''title'')
   \<and> truthy (get_prop (example_video_body (VNum 0)) ''teacherName'')
   \<and> truthy (get_prop (example_video_body (VNum 0)) ''subject'')
   \<and> truthy (get_prop (example_video_body (VNum 0)) ''url'')
   \<and> truthy (get_prop (example_video_body (VNum 0)) ''public_id'')
   \<and> get_prop (example_video_body (VNum 0)) ''duration'' = VNum 0
   \<and> auto_id example_env \<notin> fst ` set (db example_world ''videos'')
   \<and> (\<exists>d. app example_env
               \<lparr>req_method = POST, req_path = [''api'', ''upload-video''],
                req_body = example_video_body (VNum 0)\<rparr> example_world
               = Some (example_world\<lparr>db := (db example_world)(''videos'' :=
                          db example_world ''videos'' @ [(''v1'', d)])\<rparr>,
                       \<lparr>status = 201,
                        json = VObj
                          [(''id'', VStr ''v1''),
                           (''title'', VStr ''Algebra 1''),
                           (''subject'', VStr ''Math''),
                           (''teacher'', VStr ''Ms. Lee''),
                           (''url'', VStr ''https://cdn.example/v.mp4''),
                           (''public_id'', VStr ''joe-learn-videos/abc123''),
                           (''duration'', VNum 0),
                           (''views'', VNum 0),
                           (''completions'', VNum 0),
                           (''createdAt'', VStr ''iso'')]\<rparr>)
             \<and> map fst d = [''title'', ''subject'', ''teacher'', ''url'', ''public_id'',
                             ''duration'', ''views'', ''completions'', ''createdAt'']
             \<and> get_prop d ''duration'' = VNum 0
             \<and> get_prop d ''views'' = VNum 0
             \<and> get_prop d ''completions'' = VNum 0
             \<and> get_prop d ''createdAt'' = VTimestamp 7)"
proof -
  have a: "get_prop [(''title'', VStr ''Algebra 1'')] ''duration'' = VUndefined"
    by (simp add: get_prop_Cons get_prop_Nil)
  have f: "auto_id example_env \<notin> fst ` set (db example_world ''videos'')"
    by (simp add: example_env_def example_world_def)
  have v: "auto_id example_env = ''v1''" "commit_time example_env = 7"
      "toISOString example_env (now_ms example_env) = ''iso''"
    by (simp_all add: example_env_def)
  note t = upload_video_required_fields [of "[(''title'', VStr ''Algebra 1'')]" example_env example_world]
  note u = upload_video_required_fields [of "example_video_body (VNum 0)" example_env example_world]
  from t a have 1: "app example_env
         \<lparr>req_method = POST, req_path = [''api'', ''upload-video''],
          req_body = [(''title'', VStr ''Algebra 1'')]\<rparr> example_world
       = Some (example_world, \<lparr>status = 400, json = message ''Missing required video data.''\<rparr>)"
    by blast
  from u f have 2: "\<exists>d. app example_env
               \<lparr>req_method = POST, req_path = [''api'', ''upload-video''],
                req_body = example_video_body (VNum 0)\<rparr> example_world
               = Some (example_world\<lparr>db := (db example_world)(''videos'' :=
                          db example_world ''videos'' @ [(''v1'', d)])\<rparr>,
                       \<lparr>status = 201,
                        json = VObj
                          [(''id'', VStr ''v1''),
                           (''title'', VStr ''Algebra 1''),
                           (''subject'', VStr ''Math''),
                           (''teacher'', VStr ''Ms. Lee''),
                           (''url'', VStr ''https://cdn.example/v.mp4''),
                           (''public_id'', VStr ''joe-learn-videos/abc123''),
                           (''duration'', VNum 0),
                           (''views'', VNum 0),
                           (''completions'', VNum 0),
                           (''createdAt'', VStr ''iso'')]\<rparr>)
             \<and> map fst d = [''title'', ''subject'', ''teacher'', ''url'', ''public_id'',
                             ''duration'', ''views'', ''completions'', ''createdAt'']
             \<and> get_prop d ''duration'' = VNum 0
             \<and> get_prop d ''views'' = VNum 0
             \<and> get_prop d ''completions'' = VNum 0
             \<and> get_prop d ''createdAt'' = VTimestamp 7"
    by (simp add: example_video_body_props v)
  from a 1 f 2 show ?thesis
    by (simp add: example_video_body_props)
qed

text \<open>
  The claim as first stated, for every request with the fields present, fails where a
  field is present and falsy: with the empty string as \<^verbatim>\<open>title\<close>, every other field
  given and \<^verbatim>\<open>duration\<close> 0, the response has status 400 and nothing is written.
\<close>

theorem upload_video_required_fields_counterexample:
  "get_prop [(''title'', VStr ''''), (''teacherName'', VStr ''Ms. Lee''),
             (''subject'', VStr ''Math''), (''url'', VStr ''https://cdn.example/v.mp4''),
             (''public_id'', VStr ''joe-learn-videos/abc123''), (''duration'', VNum 0)] ''title''
     = VStr ''''
   \<and> app example_env
         \<lparr>req_method = POST, req_path = [''api'', ''upload-video''],
          req_body = [(''title'', VStr ''''), (''teacherName'', VStr ''Ms. Lee''),
             (''subject'', VStr ''Math''), (''url'', VStr ''https://cdn.example/v.mp4''),
             (''public_id'', VStr ''joe-learn-videos/abc123''), (''duration'', VNum 0)]\<rparr>
         example_world
       = Some (example_world, \<lparr>status = 400, json = message ''Missing required video data.''\<rparr>)"
  by (simp add: route_upload_video upload_video_def get_prop_Cons finish_respond)

text \<open>
  Claim C9, as amended. The validation of POST \<^verbatim>\<open>/api/upload-video\<close> rejects
  \<^verbatim>\<open>duration\<close> only when it is undefined. When the five other required fields are
  truthy and \<^verbatim>\<open>duration\<close> is any value \<open>v\<close> other than undefined, the request is not
  answered with status 400; and when the database accepts the write (the identifier
  drawn for the document is not in use), the response has status 201 and the record
  written holds \<open>v\<close> itself as \<^verbatim>\<open>duration\<close>, whatever its kind (\<open>v\<close> being a data
  value, as every value of a parsed body is, and not a sentinel of the database client).
\<close>

theorem upload_video_duration_check:
  assumes "truthy (get_prop body ''title'')" and "truthy (get_prop body ''teacherName'')"
    and "truthy (get_prop body ''subject'')" and "truthy (get_prop body ''url'')"
    and "truthy (get_prop body ''public_id'')"
    and "get_prop body ''duration'' = v" and "v \<noteq> VUndefined"
  shows "(\<exists>w' r. app e \<lparr>req_method = POST, req_path = [''api'', ''upload-video''], req_body = body\<rparr> w
                  = Some (w', r) \<and> status r \<noteq> 400)
       \<and> (\<not> is_sentinel v \<and> auto_id e \<notin> fst ` set (db w ''videos'')
          \<longrightarrow> (\<exists>d. app e \<lparr>req_method = POST, req_path = [''api'', ''upload-video''], req_body = body\<rparr> w
               = Some (w\<lparr>db := (db w)(''videos'' := db w ''videos'' @ [(auto_id e, d)])\<rparr>,
                       \<lparr>status = 201,
                        json = VObj
                          [(''id'', VStr (auto_id e)),
                           (''title'', get_prop body ''title''),
                           (''subject'', get_prop body ''subject''),
                           (''teacher'', get_prop body ''teacherName''),
                           (''url'', get_prop body ''url''),
                           (''public_id'', get_prop body ''public_id''),
                           (''duration'', v),
                           (''views'', VNum 0),
                           (''completions'', VNum 0),
                           (''createdAt'', VStr (toISOString e (now_ms e)))]\<rparr>)
             \<and> get_prop d ''duration'' = v))"
proof -
  have defined: "get_prop body ''duration'' \<noteq> VUndefined"
    using assms(6,7) by simp
  note acc = upload_video_accepted [OF assms(1-5) defined, of e w]
  show ?thesis
  proof (intro conjI impI)
  show "\<exists>w' r. app e \<lparr>req_method = POST, req_path = [''api'', ''upload-video''], req_body = body\<rparr> w
                  = Some (w', r) \<and> status r \<noteq> 400"
  proof (cases "store_add (db w ''videos'') (auto_id e) (commit_time e) (newVideoData body)")
    case (Inl err)
    then show ?thesis
      by (simp add: route_upload_video acc finish_next error_handler_def)
  next
    case (Inr c)
    then show ?thesis
      by (simp add: route_upload_video acc finish_respond)
  qed
next
  assume a: "\<not> is_sentinel v \<and> auto_id e \<notin> fst ` set (db w ''videos'')"
  let ?d = "write_fields (commit_time e) (newVideoData body) []"
  from a have fresh: "auto_id e \<notin> fst ` set (db w ''videos'')" by simp
  have 1: "app e \<lparr>req_method = POST, req_path = [''api'', ''upload-video''], req_body = body\<rparr> w
               = Some (w\<lparr>db := (db w)(''videos'' := db w ''videos'' @ [(auto_id e, ?d)])\<rparr>,
                       \<lparr>status = 201,
                        json = VObj
                          [(''id'', VStr (auto_id e)),
                           (''title'', get_prop body ''title''),
                           (''subject'', get_prop body ''subject''),
                           (''teacher'', get_prop body ''teacherName''),
                           (''url'', get_prop body ''url''),
                           (''public_id'', get_prop body ''public_id''),
                           (''duration'', v),
                           (''views'', VNum 0),
                           (''completions'', VNum 0),
                           (''createdAt'', VStr (toISOString e (now_ms e)))]\<rparr>)"
    using assms(6)
    by (simp only: route_upload_video finish_respond
        upload_video_created [OF assms(1-5) defined fresh])
  have 2: "get_prop ?d ''duration'' = v"
    using a assms(6) by (simp add: stored_video get_prop_Cons resolve_data)
  show "\<exists>d. app e \<lparr>req_method = POST, req_path = [''api'', ''upload-video''], req_body = body\<rparr> w
               = Some (w\<lparr>db := (db w)(''videos'' := db w ''videos'' @ [(auto_id e, d)])\<rparr>,
                       \<lparr>status = 201,
                        json = VObj
                          [(''id'', VStr (auto_id e)),
                           (''title'', get_prop body ''title''),
                           (''subject'', get_prop body ''subject''),
                           (''teacher'', get_prop body ''teacherName''),
                           (''url'', get_prop body ''url''),
                           (''public_id'', get_prop body ''public_id''),
                           (''duration'', v),
                           (''views'', VNum 0),
                           (''completions'', VNum 0),
                           (''createdAt'', VStr (toISOString e (now_ms e)))]\<rparr>)
             \<and> get_prop d ''duration'' = v"
    by (rule exI [of _ ?d]) (intro conjI; fact)
  qed
qed

theorem upload_video_duration_check_witness:
  "truthy (get_prop (example_video_body VNull) ''title'')
   \<and> truthy (get_prop (example_video_body VNull) ''teacherName'')
   \<and> truthy (get_prop (example_video_body VNull) ''subject'')
   \<and> truthy (get_prop (example_video_body VNull) ''url'')
   \<and> truthy (get_prop (example_video_body VNull) ''public_id'')
   \<and> auto_id example_env \<notin> fst ` set (db example_world ''videos'')
   \<and> (\<exists>d. app example_env
               \<lparr>req_method = POST, req_path = [''api'', ''upload-video''],
                req_body = example_video_body (VNull)\<rparr> example_world
               = Some (example_world\<lparr>db := (db example_world)(''videos'' :=
                          db example_world ''videos'' @ [(''v1'', d)])\<rparr>,
                       \<lparr>status = 201,
                        json = VObj
                          [(''id'', VStr ''v1''),
                           (''title'', VStr ''Algebra 1''),
                           (''subject'', VStr ''Math''),
                           (''teacher'', VStr ''Ms. Lee''),
                           (''url'', VStr ''https://cdn.example/v.mp4''),
                           (''public_id'', VStr ''joe-learn-videos/abc123''),
                           (''duration'', VNull),
                           (''views'', VNum 0),
                           (''completions'', VNum 0),
                           (''createdAt'', VStr ''iso'')]\<rparr>)
             \<and> get_prop d ''duration'' = VNull)
   \<and> (\<exists>d. app example_env
               \<lparr>req_method = POST, req_path = [''api'', ''upload-video''],
                req_body = example_video_body (VNaN)\<rparr> example_world
               = Some (example_world\<lparr>db := (db example_world)(''videos'' :=
                          db example_world ''videos'' @ [(''v1'', d)])\<rparr>,
                       \<lparr>status = 201,
                        json = VObj
                          [(''id'', VStr ''v1''),
                           (''title'', VStr ''Algebra 1''),
                           (''subject'', VStr ''Math''),
                           (''teacher'', VStr ''Ms. Lee''),
                           (''url'', VStr ''https://cdn.example/v.mp4''),
                           (''public_id'', VStr ''joe-learn-videos/abc123''),
                           (''duration'', VNaN),
                           (''views'', VNum 0),
                           (''completions'', VNum 0),
                           (''createdAt'', VStr ''iso'')]\<rparr>)
             \<and> get_prop d ''duration'' = VNaN)
   \<and> (\<exists>d. app example_env
               \<lparr>req_method = POST, req_path = [''api'', ''upload-video''],
                req_body = example_video_body (VStr ''ninety'')\<rparr> example_world
               = Some (example_world\<lparr>db := (db example_world)(''videos'' :=
                          db example_world ''videos'' @ [(''v1'', d)])\<rparr>,
                       \<lparr>status = 201,
                        json = VObj
                          [(''id'', VStr ''v1''),
                           (''title'', VStr ''Algebra 1''),
                           (''subject'', VStr ''Math''),
                           (''teacher'', VStr ''Ms. Lee''),
                           (''url'', VStr ''https://cdn.example/v.mp4''),
                           (''public_id'', VStr ''joe-learn-videos/abc123''),
                           (''duration'', VStr ''ninety''),
                           (''views'', VNum 0),
                           (''completions'', VNum 0),
                           (''createdAt'', VStr ''iso'')]\<rparr>)
             \<and> get_prop d ''duration'' = VStr ''ninety'')"
proof -
  have f: "auto_id example_env \<notin> fst ` set (db example_world ''videos'')"
    by (simp add: example_env_def example_world_def)
  have v: "auto_id example_env = ''v1''"
      "toISOString example_env (now_ms example_env) = ''iso''"
    by (simp_all add: example_env_def)
  have t: "truthy (get_prop (example_video_body u) ''title'')"
      "truthy (get_prop (example_video_body u) ''teacherName'')"
      "truthy (get_prop (example_video_body u) ''subject'')"
      "truthy (get_prop (example_video_body u) ''url'')"
      "truthy (get_prop (example_video_body u) ''public_id'')" for u
    by (simp_all add: example_video_body_props)
  have d: "get_prop (example_video_body u) ''duration'' = u" for u
    by (simp add: example_video_body_props)
  have 1: "(\<exists>d. app example_env
               \<lparr>req_method = POST, req_path = [''api'', ''upload-video''],
                req_body = example_video_body (VNull)\<rparr> example_world
               = Some (example_world\<lparr>db := (db example_world)(''videos'' :=
                          db example_world ''videos'' @ [(''v1'', d)])\<rparr>,
                       \<lparr>status = 201,
                        json = VObj
                          [(''id'', VStr ''v1''),
                           (''title'', VStr ''Algebra 1''),
                           (''subject'', VStr ''Math''),
                           (''teacher'', VStr ''Ms. Lee''),
                           (''url'', VStr ''https://cdn.example/v.mp4''),
                           (''public_id'', VStr ''joe-learn-videos/abc123''),
                           (''duration'', VNull),
                           (''views'', VNum 0),
                           (''completions'', VNum 0),
                           (''createdAt'', VStr ''iso'')]\<rparr>)
             \<and> get_prop d ''duration'' = VNull)"
    using f upload_video_duration_check [OF t d, of "VNull" example_env example_world]
    by (simp add: example_video_body_props v)
  have 2: "(\<exists>d. app example_env
               \<lparr>req_method = POST, req_path = [''api'', ''upload-video''],
                req_body = example_video_body (VNaN)\<rparr> example_world
               = Some (example_world\<lparr>db := (db example_world)(''videos'' :=
                          db example_world ''videos'' @ [(''v1'', d)])\<rparr>,
                       \<lparr>status = 201,
                        json = VObj
                          [(''id'', VStr ''v1''),
                           (''title'', VStr ''Algebra 1''),
                           (''subject'', VStr ''Math''),
                           (''teacher'', VStr ''Ms. Lee''),
                           (''url'', VStr ''https://cdn.example/v.mp4''),
                           (''public_id'', VStr ''joe-learn-videos/abc123''),
                           (''duration'', VNaN),
                           (''views'', VNum 0),
                           (''completions'', VNum 0),
                           (''createdAt'', VStr ''iso'')]\<rparr>)
             \<and> get_prop d ''duration'' = VNaN)"
    using f upload_video_duration_check [OF t d, of "VNaN" example_env example_world]
    by (simp add: example_video_body_props v)
  have 3: "(\<exists>d. app example_env
               \<lparr>req_method = POST, req_path = [''api'', ''upload-video''],
                req_body = example_video_body (VStr ''ninety'')\<rparr> example_world
               = Some (example_world\<lparr>db := (db example_world)(''videos'' :=
                          db example_world ''videos'' @ [(''v1'', d)])\<rparr>,
                       \<lparr>status = 201,
                        json = VObj
                          [(''id'', VStr ''v1''),
                           (''title'', VStr ''Algebra 1''),
                           (''subject'', VStr ''Math''),
                           (''teacher'', VStr ''Ms. Lee''),
                           (''url'', VStr ''https://cdn.example/v.mp4''),
                           (''public_id'', VStr ''joe-learn-videos/abc123''),
                           (''duration'', VStr ''ninety''),
                           (''views'', VNum 0),
                           (''completions'', VNum 0),
                           (''createdAt'', VStr ''iso'')]\<rparr>)
             \<and> get_prop d ''duration'' = VStr ''ninety'')"
    using f upload_video_duration_check [OF t d, of "VStr ''ninety''" example_env example_world]
    by (simp add: example_video_body_props v)
  from t [of VNull] f 1 2 3 show ?thesis
    by blast
qed

text \<open>
  The claim as first stated, for every body whose other required fields are present,
  fails where one of them is present and falsy: with the empty string as \<^verbatim>\<open>url\<close> and
  a string as \<^verbatim>\<open>duration\<close> the response has status 400 and nothing is written.
\<close>

theorem upload_video_duration_check_counterexample:
  "get_prop [(''title'', VStr ''Algebra 1''), (''teacherName'', VStr ''Ms. Lee''),
             (''subject'', VStr ''Math''), (''url'', VStr ''''),
             (''public_id'', VStr ''joe-learn-videos/abc123''),
             (''duration'', VStr ''ninety'')] ''url''
     = VStr ''''
   \<and> app example_env
         \<lparr>req_method = POST, req_path = [''api'', ''upload-video''],
          req_body = [(''title'', VStr ''Algebra 1''), (''teacherName'', VStr ''Ms. Lee''),
             (''subject'', VStr ''Math''), (''url'', VStr ''''),
             (''public_id'', VStr ''joe-learn-videos/abc123''),
             (''duration'', VStr ''ninety'')]\<rparr>
         example_world
       = Some (example_world, \<lparr>status = 400, json = message ''Missing required video data.''\<rparr>)"
  by (simp add: route_upload_video upload_video_def get_prop_Cons finish_respond)

section \<open>Listing a collection\<close>

lemma order_by_desc_all:
  assumes "\<forall>p\<in>set c. get_prop (snd p) f \<noteq> VUndefined"
  shows "mset (order_by_desc f c) = mset c"
proof -
  from assms have "filter (\<lambda>p. get_prop (snd p) f \<noteq> VUndefined) c = c"
    by (simp add: filter_id_conv)
  then show ?thesis
    by (simp add: order_by_desc_def)
qed

lemma order_by_desc_sorted:
  "sorted_wrt (\<lambda>p q. order_key (get_prop (snd q) f) \<le> order_key (get_prop (snd p) f))
     (order_by_desc f c)"
proof -
  let ?k = "\<lambda>p. order_key (get_prop (snd p) f)"
  let ?xs = "sort_key ?k (filter (\<lambda>p. get_prop (snd p) f \<noteq> VUndefined) c)"
  have "sorted (map ?k ?xs)"
    by (rule sorted_sort_key)
  then have "sorted_wrt (\<lambda>p q. ?k p \<le> ?k q) ?xs"
    by (simp add: sorted_map)
  then have "sorted_wrt (\<lambda>p q. ?k q \<le> ?k p) (rev ?xs)"
    by (simp add: sorted_wrt_rev)
  then show ?thesis
    by (simp add: order_by_desc_def)
qed

lemma order_key_timestamps:
  "order_key (VTimestamp a) \<le> order_key (VTimestamp b) \<longleftrightarrow> a \<le> b"
  by (simp add: less_eq_prod_def)

lemma order_by_desc_newest_first:
  "sorted_wrt (\<lambda>p q. \<forall>tp tq. get_prop (snd p) f = VTimestamp tp
                          \<and> get_prop (snd q) f = VTimestamp tq \<longrightarrow> tq \<le> tp)
     (order_by_desc f c)"
  by (rule sorted_wrt_mono_rel [OF _ order_by_desc_sorted]) (auto simp: order_key_timestamps)

text \<open>
  Every handler keeps a dated collection dated: the two create handlers write the commit
  time as \<^verbatim>\<open>createdAt\<close>, and no update touches that field.
\<close>

lemma is_timestamp_iff: "is_timestamp v \<longleftrightarrow> (\<exists>t. v = VTimestamp t)"
  by (cases v) simp_all

lemma dated_append: "dated (c @ [(i, d)]) \<longleftrightarrow> dated c \<and> is_timestamp (get_prop d ''createdAt'')"
  by (simp add: dated_def)

lemma dated_filter: "dated c \<Longrightarrow> dated (filter P c)"
  by (simp add: dated_def list_all_iff)

lemma dated_map_doc:
  assumes "dated c" and "\<And>d. get_prop (f d) ''createdAt'' = get_prop d ''createdAt''"
  shows "dated (map (\<lambda>p. if fst p = i then (fst p, f (snd p)) else p) c)"
  using assms by (induction c) (auto simp add: dated_def)

lemma write_one_field:
  "write_fields t [(k, v)] d = set_prop k (resolve t (get_prop d k) v) d"
  by (simp add: write_fields_def write_field_def)

lemma created_at_after_write:
  "k \<noteq> ''createdAt'' \<Longrightarrow>
   get_prop (write_fields t [(k, v)] d) ''createdAt'' = get_prop d ''createdAt''"
  by (simp add: write_one_field get_prop_set_prop)

lemma stored_assessment:
  "write_fields t (newAssessmentData body) []
     = [(''title'', resolve t VUndefined (get_prop body ''title'')),
        (''teacher'', resolve t VUndefined (get_prop body ''teacherName'')),
        (''url'', resolve t VUndefined (get_prop body ''url'')),
        (''public_id'', resolve t VUndefined (get_prop body ''public_id'')),
        (''createdAt'', VTimestamp t)]"
  by (simp add: write_fields_def newAssessmentData_def write_field_def get_prop_def)

lemma store_add_dated:
  assumes "store_add c i t wdata = Inr c'" and "dated c"
    and "is_timestamp (get_prop (write_fields t wdata []) ''createdAt'')"
  shows "dated c'"
  using assms by (auto simp add: store_add_def dated_append split: if_splits)

lemma store_update_dated:
  assumes "store_update c i t [(k, v)] = Inr c'" and "dated c" and "k \<noteq> ''createdAt''"
  shows "dated c'"
  using assms
  by (auto simp add: store_update_def created_at_after_write split: if_splits intro!: dated_map_doc)

lemma store_delete_dated:
  assumes "store_delete c i = Inr c'" and "dated c"
  shows "dated c'"
  using assms by (auto simp add: store_delete_def dated_filter split: if_splits)

lemma upload_video_dated:
  "dated (db w n) \<Longrightarrow> dated (db (fst (upload_video e body w)) n)"
  by (auto simp add: upload_video_def stored_video get_prop_Cons
      split: sum.splits intro: store_add_dated)

lemma upload_assessment_dated:
  "dated (db w n) \<Longrightarrow> dated (db (fst (upload_assessment e body w)) n)"
  by (auto simp add: upload_assessment_def stored_assessment get_prop_Cons
      split: sum.splits intro: store_add_dated)

lemma view_video_dated:
  "dated (db w n) \<Longrightarrow> dated (db (fst (view_video e i w)) n)"
  by (auto simp add: view_video_def split: sum.splits intro: store_update_dated)

lemma complete_video_dated:
  "dated (db w n) \<Longrightarrow> dated (db (fst (complete_video e i w)) n)"
  by (auto simp add: complete_video_def split: sum.splits intro: store_update_dated)

lemma update_assessment_dated:
  "dated (db w n) \<Longrightarrow> dated (db (fst (update_assessment e i body w)) n)"
  by (auto simp add: update_assessment_def split: sum.splits intro: store_update_dated)

lemma delete_assessment_dated:
  "dated (db w n) \<Longrightarrow> dated (db (fst (delete_assessment e i w)) n)"
  by (auto simp add: delete_assessment_def destroy_def Let_def
      split: sum.splits option.splits if_splits intro: store_delete_dated)

lemma router_dated:
  assumes "apiRouter e m p body w = Some wo" and "dated (db w n)"
  shows "dated (db (fst wo) n)"
proof -
  have "wo = health_check w \<or> wo = generate_signature e body w \<or> wo = get_videos w
      \<or> wo = get_assessments w \<or> wo = upload_video e body w
      \<or> wo = upload_assessment e body w \<or> wo = view_video e (p ! 1) w
      \<or> wo = complete_video e (p ! 1) w \<or> wo = update_assessment e (p ! 1) body w
      \<or> wo = delete_assessment e (p ! 1) w"
    using assms(1) unfolding apiRouter_def by (auto split: if_splits)
  moreover have "dated (db (fst (health_check w)) n)"
    "dated (db (fst (generate_signature e body w)) n)"
    "dated (db (fst (get_videos w)) n)" "dated (db (fst (get_assessments w)) n)"
    using assms(2)
    by (simp_all add: health_check_def generate_signature_def get_videos_def get_assessments_def
        split: sum.splits)
  ultimately show ?thesis
    using assms(2) upload_video_dated upload_assessment_dated view_video_dated
      complete_video_dated update_assessment_dated delete_assessment_dated
    by metis
qed

lemma app_dated:
  assumes "app e r w = Some wr" and "dated (db w n)"
  shows "dated (db (fst wr) n)"
proof -
  have fin: "fst (finish wo) = fst wo" for wo
    by (simp add: finish_def split: outcome.splits)
  from assms(1) obtain wo rest where "apiRouter e (req_method r) rest (req_body r) w = Some wo"
    and "wr = finish wo"
    by (auto simp add: app_def split: list.splits if_splits)
  with assms(2) show ?thesis
    by (simp add: fin router_dated)
qed

lemma run_dated: "dated (db w n) \<Longrightarrow> dated (db (run reqs w) n)"
proof (induction reqs arbitrary: w)
  case Nil
  then show ?case by simp
next
  case (Cons er ers)
  then show ?case
    by (auto simp add: app_dated split: option.splits)
qed

lemma dated_defined: "dated c \<Longrightarrow> \<forall>p\<in>set c. get_prop (snd p) ''createdAt'' \<noteq> VUndefined"
  by (auto simp add: dated_def list_all_iff)

text \<open>
  Claim C6. GET \<^verbatim>\<open>/api/videos\<close> and GET \<^verbatim>\<open>/api/assessments\<close> answer with status 200
  and the records of the documents that the query ordered by \<^verbatim>\<open>createdAt\<close> returns,
  and leave the world unchanged. In a world whose documents carry their \<^verbatim>\<open>createdAt\<close>
  timestamp, as the data model has it, and after any sequence of requests handled from
  there (creations, updates and deletions, which keep the collections dated), the
  documents returned are exactly the documents of the collection at that moment, each
  as often as it is there and without any limit, ordered by creation time, newest first.
\<close>

theorem list_newest_first:
  assumes "dated (db w0 ''videos'')" and "dated (db w0 ''assessments'')"
    and "w = run reqs w0"
  shows "app e \<lparr>req_method = GET, req_path = [''api'', ''videos''], req_body = b\<rparr> w
           = Some (w, \<lparr>status = 200,
                       json = VArr (map record_of (order_by_desc ''createdAt'' (db w ''videos'')))\<rparr>)
       \<and> mset (order_by_desc ''createdAt'' (db w ''videos'')) = mset (db w ''videos'')
       \<and> sorted_wrt (\<lambda>p q. \<forall>tp tq. get_prop (snd p) ''createdAt'' = VTimestamp tp
                          \<and> get_prop (snd q) ''createdAt'' = VTimestamp tq \<longrightarrow> tq \<le> tp)
            (order_by_desc ''createdAt'' (db w ''videos''))
       \<and> dated (db w ''videos'')
       \<and> app e \<lparr>req_method = GET, req_path = [''api'', ''assessments''], req_body = b\<rparr> w
           = Some (w, \<lparr>status = 200,
                       json = VArr (map record_of (order_by_desc ''createdAt'' (db w ''assessments'')))\<rparr>)
       \<and> mset (order_by_desc ''createdAt'' (db w ''assessments'')) = mset (db w ''assessments'')
       \<and> sorted_wrt (\<lambda>p q. \<forall>tp tq. get_prop (snd p) ''createdAt'' = VTimestamp tp
                          \<and> get_prop (snd q) ''createdAt'' = VTimestamp tq \<longrightarrow> tq \<le> tp)
            (order_by_desc ''createdAt'' (db w ''assessments''))
       \<and> dated (db w ''assessments'')"
proof -
  have dv: "dated (db w ''videos'')" and da: "dated (db w ''assessments'')"
    using assms by (simp_all add: run_dated)
  have v: "mset (order_by_desc ''createdAt'' (db w ''videos'')) = mset (db w ''videos'')"
    by (rule order_by_desc_all [OF dated_defined [OF dv]])
  have a: "mset (order_by_desc ''createdAt'' (db w ''assessments'')) = mset (db w ''assessments'')"
    by (rule order_by_desc_all [OF dated_defined [OF da]])
  show ?thesis
    by (simp only: route_get_videos route_get_assessments get_videos_def get_assessments_def
        finish_respond v a dv da order_by_desc_newest_first simp_thms)
qed


theorem list_newest_first_witness:
  "dated (db example_world ''videos'') \<and> dated (db example_world ''assessments'')
   \<and> app example_env \<lparr>req_method = GET, req_path = [''api'', ''videos''], req_body = []\<rparr>
         (run [(example_env, \<lparr>req_method = POST, req_path = [''api'', ''upload-video''],
                               req_body = example_video_body (VNum 0)\<rparr>)] example_world)
       = Some (run [(example_env, \<lparr>req_method = POST, req_path = [''api'', ''upload-video''],
                               req_body = example_video_body (VNum 0)\<rparr>)] example_world,
               \<lparr>status = 200,
                json = VArr
                  [VObj [(''id'', VStr ''v1''), (''title'', VStr ''Algebra 1''),
                         (''subject'', VStr ''Math''), (''teacher'', VStr ''Ms. Lee''),
                         (''url'', VStr ''https://cdn.example/v.mp4''),
                         (''public_id'', VStr ''joe-learn-videos/abc123''),
                         (''duration'', VNum 0), (''views'', VNum 0),
                         (''completions'', VNum 0), (''createdAt'', VTimestamp 7)],
                   VObj [(''id'', VStr ''v2''), (''title'', VStr ''Geometry''), (''views'', VNum 0),
                         (''completions'', VNum 0), (''createdAt'', VTimestamp 6)],
                   VObj [(''id'', VStr ''v0''), (''title'', VStr ''Intro''), (''views'', VNum 2),
                         (''completions'', VNum 1), (''createdAt'', VTimestamp 1)]]\<rparr>)
   \<and> app example_env \<lparr>req_method = GET, req_path = [''api'', ''assessments''], req_body = []\<rparr>
         (run [(example_env, \<lparr>req_method = POST, req_path = [''api'', ''upload-video''],
                               req_body = example_video_body (VNum 0)\<rparr>)] example_world)
       = Some (run [(example_env, \<lparr>req_method = POST, req_path = [''api'', ''upload-video''],
                               req_body = example_video_body (VNum 0)\<rparr>)] example_world,
               \<lparr>status = 200,
                json = VArr
                  [VObj [(''id'', VStr ''a2''), (''title'', VStr ''Quiz 2''),
                         (''public_id'', VStr ''raw/q2''), (''createdAt'', VTimestamp 4)],
                   VObj [(''id'', VStr ''a1''), (''title'', VStr ''Quiz 1''),
                         (''public_id'', VStr []), (''createdAt'', VTimestamp 3)]]\<rparr>)"
proof -
  let ?w = "run [(example_env, \<lparr>req_method = POST, req_path = [''api'', ''upload-video''],
                               req_body = example_video_body (VNum 0)\<rparr>)] example_world"
  have hv: "dated (db example_world ''videos'')"
    by (simp add: example_world_def dated_def get_prop_Cons)
  have ha: "dated (db example_world ''assessments'')"
    by (simp add: example_world_def dated_def get_prop_Cons)
  have fresh: "auto_id example_env \<notin> fst ` set (db example_world ''videos'')"
    by (simp add: example_env_def example_world_def)
  have w: "?w = example_world\<lparr>db := (db example_world)(''videos'' := db example_world ''videos'' @
           [(auto_id example_env,
             write_fields (commit_time example_env) (newVideoData (example_video_body (VNum 0))) [])])\<rparr>"
    using upload_video_created [of "example_video_body (VNum 0)" example_env example_world] fresh
    by (simp add: example_video_body_props route_upload_video finish_respond)
  have v: "db ?w ''videos''
     = [(''v0'', [(''title'', VStr ''Intro''), (''views'', VNum 2),
                  (''completions'', VNum 1), (''createdAt'', VTimestamp 1)]),
        (''v2'', [(''title'', VStr ''Geometry''), (''views'', VNum 0),
                  (''completions'', VNum 0), (''createdAt'', VTimestamp 6)]),
        (''v1'', [(''title'', VStr ''Algebra 1''),
                  (''subject'', VStr ''Math''), (''teacher'', VStr ''Ms. Lee''),
                  (''url'', VStr ''https://cdn.example/v.mp4''),
                  (''public_id'', VStr ''joe-learn-videos/abc123''),
                  (''duration'', VNum 0), (''views'', VNum 0),
                  (''completions'', VNum 0), (''createdAt'', VTimestamp 7)])]"
    unfolding w by (simp add: stored_video example_video_body_props) (simp add: example_world_def example_env_def)
  have a: "db ?w ''assessments''
     = [(''a1'', [(''title'', VStr ''Quiz 1''), (''public_id'', VStr []),
                  (''createdAt'', VTimestamp 3)]),
        (''a2'', [(''title'', VStr ''Quiz 2''), (''public_id'', VStr ''raw/q2''),
                  (''createdAt'', VTimestamp 4)])]"
    unfolding w by (simp add: example_world_def)
  have ov: "map record_of (order_by_desc ''createdAt'' (db ?w ''videos''))
      = [VObj [(''id'', VStr ''v1''), (''title'', VStr ''Algebra 1''),
                         (''subject'', VStr ''Math''), (''teacher'', VStr ''Ms. Lee''),
                         (''url'', VStr ''https://cdn.example/v.mp4''),
                         (''public_id'', VStr ''joe-learn-videos/abc123''),
                         (''duration'', VNum 0), (''views'', VNum 0),
                         (''completions'', VNum 0), (''createdAt'', VTimestamp 7)],
                   VObj [(''id'', VStr ''v2''), (''title'', VStr ''Geometry''), (''views'', VNum 0),
                         (''completions'', VNum 0), (''createdAt'', VTimestamp 6)],
                   VObj [(''id'', VStr ''v0''), (''title'', VStr ''Intro''), (''views'', VNum 2),
                         (''completions'', VNum 1), (''createdAt'', VTimestamp 1)]]"
    unfolding v by (simp add: order_by_desc_def get_prop_Cons record_of_def spread_def)
  have oa: "map record_of (order_by_desc ''createdAt'' (db ?w ''assessments''))
      = [VObj [(''id'', VStr ''a2''), (''title'', VStr ''Quiz 2''),
                         (''public_id'', VStr ''raw/q2''), (''createdAt'', VTimestamp 4)],
                   VObj [(''id'', VStr ''a1''), (''title'', VStr ''Quiz 1''),
                         (''public_id'', VStr []), (''createdAt'', VTimestamp 3)]]"
    unfolding a by (simp add: order_by_desc_def get_prop_Cons record_of_def spread_def)
  from list_newest_first [OF hv ha refl, of example_env "[]"]
  have "app example_env \<lparr>req_method = GET, req_path = [''api'', ''videos''], req_body = []\<rparr> ?w
       = Some (?w, \<lparr>status = 200,
                json = VArr (map record_of (order_by_desc ''createdAt'' (db ?w ''videos'')))\<rparr>)
     \<and> app example_env \<lparr>req_method = GET, req_path = [''api'', ''assessments''], req_body = []\<rparr> ?w
       = Some (?w, \<lparr>status = 200,
                json = VArr (map record_of (order_by_desc ''createdAt'' (db ?w ''assessments'')))\<rparr>)"
    by blast
  then have listed: "app example_env \<lparr>req_method = GET, req_path = [''api'', ''videos''], req_body = []\<rparr> ?w
       = Some (?w,
               \<lparr>status = 200,
                json = VArr
                  [VObj [(''id'', VStr ''v1''), (''title'', VStr ''Algebra 1''),
                         (''subject'', VStr ''Math''), (''teacher'', VStr ''Ms. Lee''),
                         (''url'', VStr ''https://cdn.example/v.mp4''),
                         (''public_id'', VStr ''joe-learn-videos/abc123''),
                         (''duration'', VNum 0), (''views'', VNum 0),
                         (''completions'', VNum 0), (''createdAt'', VTimestamp 7)],
                   VObj [(''id'', VStr ''v2''), (''title'', VStr ''Geometry''), (''views'', VNum 0),
                         (''completions'', VNum 0), (''createdAt'', VTimestamp 6)],
                   VObj [(''id'', VStr ''v0''), (''title'', VStr ''Intro''), (''views'', VNum 2),
                         (''completions'', VNum 1), (''createdAt'', VTimestamp 1)]]\<rparr>)
   \<and> app example_env \<lparr>req_method = GET, req_path = [''api'', ''assessments''], req_body = []\<rparr> ?w
       = Some (?w,
               \<lparr>status = 200,
                json = VArr
                  [VObj [(''id'', VStr ''a2''), (''title'', VStr ''Quiz 2''),
                         (''public_id'', VStr ''raw/q2''), (''createdAt'', VTimestamp 4)],
                   VObj [(''id'', VStr ''a1''), (''title'', VStr ''Quiz 1''),
                         (''public_id'', VStr []), (''createdAt'', VTimestamp 3)]]\<rparr>)"
    by (simp only: ov oa)
  show ?thesis
    by (intro conjI hv ha listed [THEN conjunct1] listed [THEN conjunct2])
qed

section \<open>The counters of a video\<close>

lemma map_of_map_doc:
  "map_of (map (\<lambda>p. if fst p = i then (fst p, f (snd p)) else p) c) j
     = (if j = i then map_option f (map_of c i) else map_of c j)"
  by (induction c) auto

lemma ids_map_doc:
  "map fst (map (\<lambda>p. if fst p = i then (fst p, f (snd p)) else p) c) = map fst c"
  by (induction c) auto

lemma increment_field:
  "write_fields t [(k, VIncrement 1)] d
     = set_prop k (case get_prop d k of VNum m \<Rightarrow> VNum (m + 1) | _ \<Rightarrow> VNum 1) d"
  by (simp add: write_fields_def write_field_def)

lemma increment_counter:
  "get_prop d k = VNum n \<Longrightarrow> write_fields t [(k, VIncrement 1)] d = set_prop k (VNum (n + 1)) d"
  by (simp add: increment_field)

lemma keys_set_prop_present:
  "get_prop d k \<noteq> VUndefined \<Longrightarrow> map fst (set_prop k v d) = map fst d"
proof -
  assume "get_prop d k \<noteq> VUndefined"
  then have "map_of d k \<noteq> None"
    by (auto simp: get_prop_def split: option.splits)
  then have "k \<in> fst ` set d"
    by (simp add: map_of_None_iff)
  then show ?thesis
    by (simp add: keys_set_prop)
qed

lemma view_video_existing:
  assumes "map_of (db w ''videos'') i = Some d"
  shows "view_video e i w
     = (w\<lparr>db := (db w)(''videos'' :=
            map (\<lambda>p. if fst p = i
                      then (fst p, write_fields (commit_time e) [(''views'', VIncrement 1)] (snd p))
                      else p) (db w ''videos''))\<rparr>,
        respond 200 (message ''View count updated successfully.''))"
  using assms by (simp add: view_video_def store_update_def)

lemma complete_video_existing:
  assumes "map_of (db w ''videos'') i = Some d"
  shows "complete_video e i w
     = (w\<lparr>db := (db w)(''videos'' :=
            map (\<lambda>p. if fst p = i
                      then (fst p, write_fields (commit_time e) [(''completions'', VIncrement 1)] (snd p))
                      else p) (db w ''videos''))\<rparr>,
        respond 200 (message ''Completion count updated successfully.''))"
  using assms by (simp add: complete_video_def store_update_def)

lemma route_view_request:
  "is_view_request i r \<Longrightarrow> i \<noteq> [] \<Longrightarrow> app e r w = Some (finish (view_video e i w))"
  by (simp add: is_view_request_def app_def apiRouter_def)

lemma route_complete_request:
  "is_complete_request i r \<Longrightarrow> i \<noteq> [] \<Longrightarrow> app e r w = Some (finish (complete_video e i w))"
  by (simp add: is_complete_request_def app_def apiRouter_def)

lemma not_view_and_complete: "is_view_request i r \<Longrightarrow> \<not> is_complete_request i r"
  by (simp add: is_view_request_def is_complete_request_def)

lemma view_step:
  assumes "i \<noteq> []" and "map_of (db w ''videos'') i = Some d" and "get_prop d ''views'' = VNum n"
  shows "\<exists>c. app e \<lparr>req_method = POST, req_path = [''api'', ''videos'', i, ''view''], req_body = b\<rparr> w
             = Some (w\<lparr>db := (db w)(''videos'' := c)\<rparr>,
                     \<lparr>status = 200, json = message ''View count updated successfully.''\<rparr>)
           \<and> map fst c = map fst (db w ''videos'')
           \<and> map_of c i = Some (set_prop ''views'' (VNum (n + 1)) d)
           \<and> (\<forall>j. j \<noteq> i \<longrightarrow> map_of c j = map_of (db w ''videos'') j)"
proof -
  let ?c = "map (\<lambda>p. if fst p = i
                      then (fst p, write_fields (commit_time e) [(''views'', VIncrement 1)] (snd p))
                      else p) (db w ''videos'')"
  have 1: "app e \<lparr>req_method = POST, req_path = [''api'', ''videos'', i, ''view''], req_body = b\<rparr> w
             = Some (w\<lparr>db := (db w)(''videos'' := ?c)\<rparr>,
                     \<lparr>status = 200, json = message ''View count updated successfully.''\<rparr>)"
    using assms(1) by (simp add: route_view_video view_video_existing [OF assms(2)] finish_respond)
  have 2: "map fst ?c = map fst (db w ''videos'')"
    by (rule ids_map_doc)
  have 3: "map_of ?c i = Some (set_prop ''views'' (VNum (n + 1)) d)"
    using assms(2,3) by (simp add: map_of_map_doc increment_counter)
  have 4: "\<forall>j. j \<noteq> i \<longrightarrow> map_of ?c j = map_of (db w ''videos'') j"
    by (simp add: map_of_map_doc)
  show ?thesis
    by (rule exI [of _ ?c]) (intro conjI; fact)
qed

lemma complete_step:
  assumes "i \<noteq> []" and "map_of (db w ''videos'') i = Some d" and "get_prop d ''completions'' = VNum m"
  shows "\<exists>c. app e \<lparr>req_method = POST, req_path = [''api'', ''videos'', i, ''complete''], req_body = b\<rparr> w
             = Some (w\<lparr>db := (db w)(''videos'' := c)\<rparr>,
                     \<lparr>status = 200, json = message ''Completion count updated successfully.''\<rparr>)
           \<and> map fst c = map fst (db w ''videos'')
           \<and> map_of c i = Some (set_prop ''completions'' (VNum (m + 1)) d)
           \<and> (\<forall>j. j \<noteq> i \<longrightarrow> map_of c j = map_of (db w ''videos'') j)"
proof -
  let ?c = "map (\<lambda>p. if fst p = i
                      then (fst p, write_fields (commit_time e) [(''completions'', VIncrement 1)] (snd p))
                      else p) (db w ''videos'')"
  have 1: "app e \<lparr>req_method = POST, req_path = [''api'', ''videos'', i, ''complete''], req_body = b\<rparr> w
             = Some (w\<lparr>db := (db w)(''videos'' := ?c)\<rparr>,
                     \<lparr>status = 200, json = message ''Completion count updated successfully.''\<rparr>)"
    using assms(1) by (simp add: route_complete_video complete_video_existing [OF assms(2)] finish_respond)
  have 2: "map fst ?c = map fst (db w ''videos'')"
    by (rule ids_map_doc)
  have 3: "map_of ?c i = Some (set_prop ''completions'' (VNum (m + 1)) d)"
    using assms(2,3) by (simp add: map_of_map_doc increment_counter)
  have 4: "\<forall>j. j \<noteq> i \<longrightarrow> map_of ?c j = map_of (db w ''videos'') j"
    by (simp add: map_of_map_doc)
  show ?thesis
    by (rule exI [of _ ?c]) (intro conjI; fact)
qed

lemma run_counters:
  assumes "i \<noteq> []"
    and "\<forall>er\<in>set reqs. is_view_request i (snd er) \<or> is_complete_request i (snd er)"
    and "map_of (db w ''videos'') i = Some d"
    and "get_prop d ''views'' = VNum n" and "get_prop d ''completions'' = VNum m"
  shows "\<exists>d'. map_of (db (run reqs w) ''videos'') i = Some d'
           \<and> get_prop d' ''views''
               = VNum (n + of_nat (length (filter (\<lambda>er. is_view_request i (snd er)) reqs)))
           \<and> get_prop d' ''completions''
               = VNum (m + of_nat (length (filter (\<lambda>er. is_complete_request i (snd er)) reqs)))"
  using assms(2-)
proof (induction reqs arbitrary: w d n m)
  case Nil
  then show ?case by simp
next
  case (Cons er ers)
  from Cons.prems(1) have rest: "\<forall>er\<in>set ers. is_view_request i (snd er) \<or> is_complete_request i (snd er)"
    by simp
  from Cons.prems(1) consider (v) "is_view_request i (snd er)" | (c) "is_complete_request i (snd er)"
    by auto
  then show ?case
  proof cases
    case v
    let ?w = "fst (finish (view_video (fst er) i w))"
    let ?d = "set_prop ''views'' (VNum (n + 1)) d"
    have nc: "\<not> is_complete_request i (snd er)"
      using v by (rule not_view_and_complete)
    have step: "run (er # ers) w = run ers ?w"
      using v assms(1) by (simp add: route_view_request)
    have look: "map_of (db ?w ''videos'') i = Some ?d"
      using Cons.prems(2,3)
      by (simp add: view_video_existing [OF Cons.prems(2)] finish_respond map_of_map_doc
          increment_counter)
    have "get_prop ?d ''views'' = VNum (n + 1)" "get_prop ?d ''completions'' = VNum m"
      using Cons.prems(4) by (simp_all add: get_prop_set_prop)
    from Cons.IH [OF rest look this] obtain d' where
      d': "map_of (db (run ers ?w) ''videos'') i = Some d'"
        "get_prop d' ''views''
           = VNum (n + 1 + of_nat (length (filter (\<lambda>er. is_view_request i (snd er)) ers)))"
        "get_prop d' ''completions''
           = VNum (m + of_nat (length (filter (\<lambda>er. is_complete_request i (snd er)) ers)))"
      by blast
    show ?thesis
      unfolding step using d' v nc by (intro exI [of _ d']) (simp add: ac_simps)
  next
    case c
    let ?w = "fst (finish (complete_video (fst er) i w))"
    let ?d = "set_prop ''completions'' (VNum (m + 1)) d"
    have nv: "\<not> is_view_request i (snd er)"
      using c not_view_and_complete by blast
    have step: "run (er # ers) w = run ers ?w"
      using c assms(1) by (simp add: route_complete_request)
    have look: "map_of (db ?w ''videos'') i = Some ?d"
      using Cons.prems(2,4)
      by (simp add: complete_video_existing [OF Cons.prems(2)] finish_respond map_of_map_doc
          increment_counter)
    have "get_prop ?d ''views'' = VNum n" "get_prop ?d ''completions'' = VNum (m + 1)"
      using Cons.prems(3) by (simp_all add: get_prop_set_prop)
    from Cons.IH [OF rest look this] obtain d' where
      d': "map_of (db (run ers ?w) ''videos'') i = Some d'"
        "get_prop d' ''views''
           = VNum (n + of_nat (length (filter (\<lambda>er. is_view_request i (snd er)) ers)))"
        "get_prop d' ''completions''
           = VNum (m + 1 + of_nat (length (filter (\<lambda>er. is_complete_request i (snd er)) ers)))"
      by blast
    show ?thesis
      unfolding step using d' c nv by (intro exI [of _ d']) (simp add: ac_simps)
  qed
qed

lemma creation_sets_counters:
  assumes "app e \<lparr>req_method = POST, req_path = [''api'', ''upload-video''], req_body = body\<rparr> w
             = Some (w', r)"
    and "status r = 201"
  shows "\<exists>d. db w' = (db w)(''videos'' := db w ''videos'' @ [(auto_id e, d)])
           \<and> get_prop d ''views'' = VNum 0 \<and> get_prop d ''completions'' = VNum 0"
proof -
  let ?d = "write_fields (commit_time e) (newVideoData body) []"
  have fin: "finish (upload_video e body w) = (w', r)"
    using assms(1) by (simp add: route_upload_video)
  have counters: "get_prop ?d ''views'' = VNum 0 \<and> get_prop ?d ''completions'' = VNum 0"
    by (simp add: stored_video get_prop_Cons)
  have "db w' = (db w)(''videos'' := db w ''videos'' @ [(auto_id e, ?d)])"
  proof (cases "\<not> truthy (get_prop body ''title'') \<or> \<not> truthy (get_prop body ''teacherName'')
         \<or> \<not> truthy (get_prop body ''subject'') \<or> \<not> truthy (get_prop body ''url'')
         \<or> \<not> truthy (get_prop body ''public_id'') \<or> get_prop body ''duration'' = VUndefined")
    case True
    then have "finish (upload_video e body w)
        = (w, \<lparr>status = 400, json = message ''Missing required video data.''\<rparr>)"
      by (simp only: upload_video_rejected finish_respond)
    with fin assms(2) show ?thesis by auto
  next
    case False
    then have acc: "upload_video e body w =
     (case store_add (db w ''videos'') (auto_id e) (commit_time e) (newVideoData body) of
          Inl err \<Rightarrow> (w, Next err)
        | Inr c \<Rightarrow>
            (w\<lparr>db := (db w)(''videos'' := c)\<rparr>,
             respond 201 (VObj
               (set_prop ''createdAt'' (VStr (toISOString e (now_ms e)))
                 (spread [(''id'', VStr (auto_id e))] (newVideoData body))))))"
      by (intro upload_video_accepted) simp_all
    show ?thesis
    proof (cases "map_of (db w ''videos'') (auto_id e)")
      case None
      then show ?thesis
        using fin by (auto simp add: acc store_add_def finish_respond)
    next
      case (Some x)
      then have "finish (upload_video e body w) = (w, error_handler (AlreadyExists (auto_id e)))"
        by (simp add: acc store_add_def finish_next)
      with fin assms(2) show ?thesis
        by (auto simp add: error_handler_def)
    qed
  qed
  with counters show ?thesis by blast
qed

text \<open>
  Claim C4. A successful creation writes a video document whose \<^verbatim>\<open>views\<close> and
  \<^verbatim>\<open>completions\<close> are 0. For a video document that exists and whose counters hold the
  numbers \<open>n\<close> and \<open>m\<close>: a POST of \<^verbatim>\<open>/api/videos/:id/view\<close> is answered with status
  200 and replaces \<^verbatim>\<open>views\<close> by \<open>n + 1\<close>, a POST of \<^verbatim>\<open>/api/videos/:id/complete\<close>
  replaces \<^verbatim>\<open>completions\<close> by \<open>m + 1\<close>, and neither changes anything else: the other
  fields of the document and their order, the other documents and their order, the
  other collections and the destroy calls stay as they are. After any sequence of such
  requests for the video, \<^verbatim>\<open>views\<close> is \<open>n\<close> plus the number of view requests and
  \<^verbatim>\<open>completions\<close> is \<open>m\<close> plus the number of complete requests; a counter that was
  not negative is not negative afterwards.
\<close>

theorem video_counters:
  assumes "i \<noteq> []" and "map_of (db w ''videos'') i = Some d"
    and "get_prop d ''views'' = VNum n" and "get_prop d ''completions'' = VNum m"
    and "\<forall>er\<in>set reqs. is_view_request i (snd er) \<or> is_complete_request i (snd er)"
  shows "(app eu \<lparr>req_method = POST, req_path = [''api'', ''upload-video''], req_body = bu\<rparr> wu
             = Some (wu', ru) \<and> status ru = 201
          \<longrightarrow> (\<exists>du. db wu' = (db wu)(''videos'' := db wu ''videos'' @ [(auto_id eu, du)])
                 \<and> get_prop du ''views'' = VNum 0 \<and> get_prop du ''completions'' = VNum 0))
       \<and> (\<exists>c. app e \<lparr>req_method = POST, req_path = [''api'', ''videos'', i, ''view''], req_body = b\<rparr> w
                 = Some (w\<lparr>db := (db w)(''videos'' := c)\<rparr>,
                         \<lparr>status = 200, json = message ''View count updated successfully.''\<rparr>)
               \<and> map fst c = map fst (db w ''videos'')
               \<and> map_of c i = Some (set_prop ''views'' (VNum (n + 1)) d)
               \<and> (\<forall>j. j \<noteq> i \<longrightarrow> map_of c j = map_of (db w ''videos'') j))
       \<and> (\<exists>c. app e \<lparr>req_method = POST, req_path = [''api'', ''videos'', i, ''complete''], req_body = b\<rparr> w
                 = Some (w\<lparr>db := (db w)(''videos'' := c)\<rparr>,
                         \<lparr>status = 200, json = message ''Completion count updated successfully.''\<rparr>)
               \<and> map fst c = map fst (db w ''videos'')
               \<and> map_of c i = Some (set_prop ''completions'' (VNum (m + 1)) d)
               \<and> (\<forall>j. j \<noteq> i \<longrightarrow> map_of c j = map_of (db w ''videos'') j))
       \<and> map fst (set_prop ''views'' (VNum (n + 1)) d) = map fst d
       \<and> map fst (set_prop ''completions'' (VNum (m + 1)) d) = map fst d
       \<and> (\<forall>k. get_prop (set_prop ''views'' (VNum (n + 1)) d) k
                 = (if k = ''views'' then VNum (n + 1) else get_prop d k))
       \<and> (\<forall>k. get_prop (set_prop ''completions'' (VNum (m + 1)) d) k
                 = (if k = ''completions'' then VNum (m + 1) else get_prop d k))
       \<and> (\<exists>d'. map_of (db (run reqs w) ''videos'') i = Some d'
               \<and> get_prop d' ''views''
                   = VNum (n + of_nat (length (filter (\<lambda>er. is_view_request i (snd er)) reqs)))
               \<and> get_prop d' ''completions''
                   = VNum (m + of_nat (length (filter (\<lambda>er. is_complete_request i (snd er)) reqs))))
       \<and> (0 \<le> n \<longrightarrow> 0 \<le> n + of_nat (length (filter (\<lambda>er. is_view_request i (snd er)) reqs)))
       \<and> (0 \<le> m \<longrightarrow> 0 \<le> m + of_nat (length (filter (\<lambda>er. is_complete_request i (snd er)) reqs)))"
proof (intro conjI)
  show "app eu \<lparr>req_method = POST, req_path = [''api'', ''upload-video''], req_body = bu\<rparr> wu
             = Some (wu', ru) \<and> status ru = 201
          \<longrightarrow> (\<exists>du. db wu' = (db wu)(''videos'' := db wu ''videos'' @ [(auto_id eu, du)])
                 \<and> get_prop du ''views'' = VNum 0 \<and> get_prop du ''completions'' = VNum 0)"
    using creation_sets_counters by blast
  show "\<exists>c. app e \<lparr>req_method = POST, req_path = [''api'', ''videos'', i, ''view''], req_body = b\<rparr> w
                 = Some (w\<lparr>db := (db w)(''videos'' := c)\<rparr>,
                         \<lparr>status = 200, json = message ''View count updated successfully.''\<rparr>)
               \<and> map fst c = map fst (db w ''videos'')
               \<and> map_of c i = Some (set_prop ''views'' (VNum (n + 1)) d)
               \<and> (\<forall>j. j \<noteq> i \<longrightarrow> map_of c j = map_of (db w ''videos'') j)"
    by (rule view_step [OF assms(1-3)])
  show "\<exists>c. app e \<lparr>req_method = POST, req_path = [''api'', ''videos'', i, ''complete''], req_body = b\<rparr> w
                 = Some (w\<lparr>db := (db w)(''videos'' := c)\<rparr>,
                         \<lparr>status = 200, json = message ''Completion count updated successfully.''\<rparr>)
               \<and> map fst c = map fst (db w ''videos'')
               \<and> map_of c i = Some (set_prop ''completions'' (VNum (m + 1)) d)
               \<and> (\<forall>j. j \<noteq> i \<longrightarrow> map_of c j = map_of (db w ''videos'') j)"
    by (rule complete_step [OF assms(1,2,4)])
  show "map fst (set_prop ''views'' (VNum (n + 1)) d) = map fst d"
    using assms(3) by (simp add: keys_set_prop_present)
  show "map fst (set_prop ''completions'' (VNum (m + 1)) d) = map fst d"
    using assms(4) by (simp add: keys_set_prop_present)
  show "\<forall>k. get_prop (set_prop ''views'' (VNum (n + 1)) d) k
                 = (if k = ''views'' then VNum (n + 1) else get_prop d k)"
    by (simp add: get_prop_set_prop)
  show "\<forall>k. get_prop (set_prop ''completions'' (VNum (m + 1)) d) k
                 = (if k = ''completions'' then VNum (m + 1) else get_prop d k)"
    by (simp add: get_prop_set_prop)
  show "\<exists>d'. map_of (db (run reqs w) ''videos'') i = Some d'
               \<and> get_prop d' ''views''
                   = VNum (n + of_nat (length (filter (\<lambda>er. is_view_request i (snd er)) reqs)))
               \<and> get_prop d' ''completions''
                   = VNum (m + of_nat (length (filter (\<lambda>er. is_complete_request i (snd er)) reqs)))"
    by (rule run_counters [OF assms(1,5,2,3,4)])
  show "0 \<le> n \<longrightarrow> 0 \<le> n + of_nat (length (filter (\<lambda>er. is_view_request i (snd er)) reqs))"
    by simp
  show "0 \<le> m \<longrightarrow> 0 \<le> m + of_nat (length (filter (\<lambda>er. is_complete_request i (snd er)) reqs))"
    by simp
qed

theorem video_counters_witness:
  "map_of (db example_world ''videos'') ''v0''
     = Some [(''title'', VStr ''Intro''), (''views'', VNum 2),
             (''completions'', VNum 1), (''createdAt'', VTimestamp 1)]
   \<and> (\<exists>wu ru du.
         app example_env
           \<lparr>req_method = POST, req_path = [''api'', ''upload-video''],
            req_body = example_video_body (VNum 0)\<rparr> example_world = Some (wu, ru)
         \<and> status ru = 201
         \<and> db wu = (db example_world)(''videos'' := db example_world ''videos'' @ [(''v1'', du)])
         \<and> get_prop du ''views'' = VNum 0 \<and> get_prop du ''completions'' = VNum 0)
   \<and> (\<exists>c. app example_env
              \<lparr>req_method = POST, req_path = [''api'', ''videos'', ''v0'', ''view''], req_body = []\<rparr>
              example_world
             = Some (example_world\<lparr>db := (db example_world)(''videos'' := c)\<rparr>,
                     \<lparr>status = 200, json = message ''View count updated successfully.''\<rparr>)
           \<and> map_of c ''v0''
               = Some [(''title'', VStr ''Intro''), (''views'', VNum 3),
                       (''completions'', VNum 1), (''createdAt'', VTimestamp 1)])
   \<and> (\<exists>d'. map_of (db (run
                 [(example_env, \<lparr>req_method = POST, req_path = [''api'', ''videos'', ''v0'', ''view''],
                                 req_body = []\<rparr>),
                  (example_env, \<lparr>req_method = POST, req_path = [''api'', ''videos'', ''v0'', ''complete''],
                                 req_body = []\<rparr>),
                  (example_env, \<lparr>req_method = POST, req_path = [''api'', ''videos'', ''v0'', ''view''],
                                 req_body = []\<rparr>)]
                 example_world) ''videos'') ''v0'' = Some d'
           \<and> get_prop d' ''views'' = VNum 4
           \<and> get_prop d' ''completions'' = VNum 2)"
proof -
  let ?d = "[(''title'', VStr ''Intro''), (''views'', VNum 2),
             (''completions'', VNum 1), (''createdAt'', VTimestamp 1)]"
  let ?view = "\<lparr>req_method = POST, req_path = [''api'', ''videos'', ''v0'', ''view''], req_body = []\<rparr>"
  let ?complete = "\<lparr>req_method = POST, req_path = [''api'', ''videos'', ''v0'', ''complete''], req_body = []\<rparr>"
  let ?reqs = "[(example_env, ?view), (example_env, ?complete), (example_env, ?view)]"
  let ?wu = "example_world\<lparr>db := (db example_world)(''videos'' := db example_world ''videos'' @
           [(auto_id example_env,
             write_fields (commit_time example_env) (newVideoData (example_video_body (VNum 0))) [])])\<rparr>"
  let ?ru = "\<lparr>status = 201, json = VObj
        [(''id'', VStr (auto_id example_env)),
         (''title'', get_prop (example_video_body (VNum 0)) ''title''),
         (''subject'', get_prop (example_video_body (VNum 0)) ''subject''),
         (''teacher'', get_prop (example_video_body (VNum 0)) ''teacherName''),
         (''url'', get_prop (example_video_body (VNum 0)) ''url''),
         (''public_id'', get_prop (example_video_body (VNum 0)) ''public_id''),
         (''duration'', get_prop (example_video_body (VNum 0)) ''duration''),
         (''views'', VNum 0),
         (''completions'', VNum 0),
         (''createdAt'', VStr (toISOString example_env (now_ms example_env)))]\<rparr>"
  have h2: "map_of (db example_world ''videos'') ''v0'' = Some ?d"
    by (simp add: example_world_def)
  have h3: "get_prop ?d ''views'' = VNum 2" and h4: "get_prop ?d ''completions'' = VNum 1"
    by (simp_all add: get_prop_Cons)
  have h5: "\<forall>er\<in>set ?reqs. is_view_request ''v0'' (snd er) \<or> is_complete_request ''v0'' (snd er)"
    by (simp add: is_view_request_def is_complete_request_def)
  have fresh: "auto_id example_env \<notin> fst ` set (db example_world ''videos'')"
    by (simp add: example_env_def example_world_def)
  have upv: "upload_video example_env (example_video_body (VNum 0)) example_world
      = (?wu, respond 201 (json ?ru))"
    using upload_video_created [of "example_video_body (VNum 0)" example_env example_world] fresh
    by (simp add: example_video_body_props)
  have up: "app example_env
           \<lparr>req_method = POST, req_path = [''api'', ''upload-video''],
            req_body = example_video_body (VNum 0)\<rparr> example_world = Some (?wu, ?ru)"
    by (simp only: route_upload_video upv finish_respond) simp
  have st: "status ?ru = 201"
    by simp
  have nz: "''v0'' \<noteq> []"
    by simp
  note t = video_counters [OF nz h2 h3 h4 h5, where eu = example_env
      and bu = "example_video_body (VNum 0)" and wu = example_world and wu' = ?wu and ru = ?ru
      and e = example_env and b = "[]"]
  have v1: "auto_id example_env = ''v1''"
    by (simp add: example_env_def)
  from t have "app example_env
           \<lparr>req_method = POST, req_path = [''api'', ''upload-video''],
            req_body = example_video_body (VNum 0)\<rparr> example_world = Some (?wu, ?ru)
         \<and> status ?ru = 201
     \<longrightarrow> (\<exists>du. db ?wu = (db example_world)(''videos'' := db example_world ''videos'' @ [(auto_id example_env, du)])
                 \<and> get_prop du ''views'' = VNum 0 \<and> get_prop du ''completions'' = VNum 0)"
    by (rule conjunct1)
  with up st obtain du where
    du: "db ?wu = (db example_world)(''videos'' := db example_world ''videos'' @ [(''v1'', du)])"
      "get_prop du ''views'' = VNum 0" "get_prop du ''completions'' = VNum 0"
    unfolding v1 by blast
  from up st du have a: "\<exists>wu ru du.
         app example_env
           \<lparr>req_method = POST, req_path = [''api'', ''upload-video''],
            req_body = example_video_body (VNum 0)\<rparr> example_world = Some (wu, ru)
         \<and> status ru = 201
         \<and> db wu = (db example_world)(''videos'' := db example_world ''videos'' @ [(''v1'', du)])
         \<and> get_prop du ''views'' = VNum 0 \<and> get_prop du ''completions'' = VNum 0"
    by blast
  from t have "\<exists>c. app example_env ?view example_world
                 = Some (example_world\<lparr>db := (db example_world)(''videos'' := c)\<rparr>,
                         \<lparr>status = 200, json = message ''View count updated successfully.''\<rparr>)
               \<and> map fst c = map fst (db example_world ''videos'')
               \<and> map_of c ''v0'' = Some (set_prop ''views'' (VNum (2 + 1)) ?d)
               \<and> (\<forall>j. j \<noteq> ''v0'' \<longrightarrow> map_of c j = map_of (db example_world ''videos'') j)"
    by (rule conjunct2 [THEN conjunct1])
  then have b: "\<exists>c. app example_env ?view example_world
             = Some (example_world\<lparr>db := (db example_world)(''videos'' := c)\<rparr>,
                     \<lparr>status = 200, json = message ''View count updated successfully.''\<rparr>)
           \<and> map_of c ''v0''
               = Some [(''title'', VStr ''Intro''), (''views'', VNum 3),
                       (''completions'', VNum 1), (''createdAt'', VTimestamp 1)]"
    by auto
  from t have "\<exists>d'. map_of (db (run ?reqs example_world) ''videos'') ''v0'' = Some d'
               \<and> get_prop d' ''views''
                   = VNum (2 + of_nat (length (filter (\<lambda>er. is_view_request ''v0'' (snd er)) ?reqs)))
               \<and> get_prop d' ''completions''
                   = VNum (1 + of_nat (length (filter (\<lambda>er. is_complete_request ''v0'' (snd er)) ?reqs)))"
    by (rule conjunct2 [THEN conjunct2, THEN conjunct2, THEN conjunct2, THEN conjunct2,
          THEN conjunct2, THEN conjunct2, THEN conjunct1])
  then have c: "\<exists>d'. map_of (db (run ?reqs example_world) ''videos'') ''v0'' = Some d'
           \<and> get_prop d' ''views'' = VNum 4
           \<and> get_prop d' ''completions'' = VNum 2"
    by (simp add: is_view_request_def is_complete_request_def)
  show ?thesis
    by (intro conjI; fact)
qed

end
